theory Spec2Isabelle
  imports Complex_Main "HOL-Library.Log_Nat"
begin

section \<open>JavaScript numbers\<close>

text \<open>
  A finite JavaScript Number is represented by its exact rational value. Division and
  multiplication round their exact result to the nearest IEEE-754 double (53-bit
  significand, ties to even): \<open>to_double\<close>. Overflow and subnormals are left out; the
  quotients of byte counts and of loop indices that occur below stay far inside the
  normal range. Byte counts, loop indices and their sums and differences are integers
  below \<open>2^53\<close>, which JavaScript computes exactly, so they are \<open>nat\<close> and \<open>int\<close> here.
  \<open>Math.round\<close> returns the nearest integer, the upper one at a tie.
\<close>

definition round_even :: "rat \<Rightarrow> int" where
  "round_even x = (let f = \<lfloor>x\<rfloor>; d = x - of_int f in
     if d < 1/2 then f else if 1/2 < d then f + 1 else if even f then f else f + 1)"

definition expo :: "rat \<Rightarrow> int" where
  "expo x = (case quotient_of x of (p, q) \<Rightarrow>
     let k = bitlen p - bitlen q
     in if 2 powi k \<le> x then k else k - 1)"

definition to_double :: "rat \<Rightarrow> rat" where
  "to_double x = (if x = 0 then 0 else
     let u = 2 powi (expo \<bar>x\<bar> - 52)
     in sgn x * of_int (round_even (\<bar>x\<bar> / u)) * u)"

definition fdiv :: "rat \<Rightarrow> rat \<Rightarrow> rat" where
  "fdiv x y = to_double (x / y)"

definition fmul :: "rat \<Rightarrow> rat \<Rightarrow> rat" where
  "fmul x y = to_double (x * y)"

definition Math_round :: "rat \<Rightarrow> int" where
  "Math_round x = (if x - of_int \<lfloor>x\<rfloor> < 1/2 then \<lfloor>x\<rfloor> else \<lfloor>x\<rfloor> + 1)"


section \<open>Strings and paths\<close>

text \<open>
  Strings are lists of 8-bit characters; file names are taken to be ASCII.
  \<open>basename\<close> and \<open>extname\<close> follow Node's POSIX \<open>path.basename\<close> and
  \<open>path.extname\<close>: trailing slashes are dropped, the last component is taken, and the
  extension runs from its last dot, unless that dot is its first character or the
  component is \<open>..\<close>.
\<close>

definition lower_table :: "(char \<times> char) list" where
  "lower_table = zip ''ABCDEFGHIJKLMNOPQRSTUVWXYZ'' ''abcdefghijklmnopqrstuvwxyz''"

definition toLowerCase :: "string \<Rightarrow> string" where
  "toLowerCase s = map (\<lambda>c. case map_of lower_table c of Some d \<Rightarrow> d | None \<Rightarrow> c) s"

definition digit_char :: "nat \<Rightarrow> char" where
  "digit_char d = ''0123456789'' ! d"

fun show_nat :: "nat \<Rightarrow> string" where
  "show_nat n = (if n < 10 then [digit_char n] else show_nat (n div 10) @ [digit_char (n mod 10)])"

declare show_nat.simps [simp del]

definition show_int :: "int \<Rightarrow> string" where
  "show_int i = (if i < 0 then CHR ''-'' # show_nat (nat (- i)) else show_nat (nat i))"

definition is_slash :: "char \<Rightarrow> bool" where
  "is_slash c = (c = CHR ''/'')"

definition is_dot :: "char \<Rightarrow> bool" where
  "is_dot c = (c = CHR ''.'')"

definition basename :: "string \<Rightarrow> string" where
  "basename p = rev (takeWhile (\<lambda>c. \<not> is_slash c) (dropWhile is_slash (rev p)))"

definition extname :: "string \<Rightarrow> string" where
  "extname p =
     (let base = basename p;
          suffix = takeWhile (\<lambda>c. \<not> is_dot c) (rev base);
          stem = drop (length suffix + 1) (rev base)
      in if length suffix = length base then []
         else if stem = [] then []
         else if base = ''..'' then []
         else CHR ''.'' # rev suffix)"

text \<open>
  \<open>path.basename(name, ext)\<close>: empty when the whole path is \<open>ext\<close>; otherwise the
  last component, without the suffix \<open>ext\<close> when it ends with it and is not equal to
  it.
\<close>

definition basename_ext :: "string \<Rightarrow> string \<Rightarrow> string" where
  "basename_ext p ext =
     (let base = basename p; n = length base - length ext
      in if ext \<noteq> [] \<and> p = ext then []
         else if ext \<noteq> [] \<and> base \<noteq> ext \<and> length ext \<le> length base \<and> drop n base = ext
         then take n base else base)"

text \<open>
  \<open>name.replace(/\.[^/.]+$/, '.' + format)\<close>: a final dot followed by at least one
  character, none of them a dot or a slash, is replaced; any other name is unchanged.
  In the replacement string \<open>$$\<close> stands for a dollar sign, \<open>$&\<close> for the matched
  text, \<open>$`\<close> for the text before the match and \<open>$'\<close> for the text after it; the
  pattern has no groups, so every other dollar sign stands for itself.
\<close>

fun expandReplacement :: "string \<Rightarrow> string \<Rightarrow> string \<Rightarrow> string \<Rightarrow> string" where
  "expandReplacement matched prefix suffix (c # d # rest) =
     (if c = CHR ''$'' \<and> d = CHR ''$'' then CHR ''$'' # expandReplacement matched prefix suffix rest
      else if c = CHR ''$'' \<and> d = CHR ''&'' then matched @ expandReplacement matched prefix suffix rest
      else if c = CHR ''$'' \<and> d = CHR 0x60 then prefix @ expandReplacement matched prefix suffix rest
      else if c = CHR ''$'' \<and> d = CHR 0x27 then suffix @ expandReplacement matched prefix suffix rest
      else c # expandReplacement matched prefix suffix (d # rest))"
| "expandReplacement matched prefix suffix template = template"

definition replaceExtension :: "string \<Rightarrow> string \<Rightarrow> string" where
  "replaceExtension name fmt =
     (let r = rev name;
          t = takeWhile (\<lambda>c. \<not> is_dot c \<and> \<not> is_slash c) r;
          rest = drop (length t) r
      in case rest of
           [] \<Rightarrow> name
         | c # stem \<Rightarrow>
             if t \<noteq> [] \<and> is_dot c
             then rev stem @ expandReplacement (CHR ''.'' # rev t) (rev stem) [] (''.'' @ fmt)
             else name)"

definition guarded :: "bool \<Rightarrow> 'a list \<Rightarrow> 'a list" where
  "guarded b xs = (if b then xs else [])"


section \<open>Data\<close>

text \<open>
  An element of the \<open>files\<close> array of a request: an object with a \<open>filename\<close> and a
  \<open>path\<close>, both strings. An option that is absent from an options object is
  \<open>None\<close>.
\<close>

record file_item =
  filename :: string
  path :: string

record image_options =
  img_quality :: "nat option"
  img_format :: "string option"
  img_width :: "nat option"
  img_height :: "nat option"
  img_progressive :: "bool option"

record video_options =
  vid_quality :: "string option"
  vid_format :: "string option"
  vid_maxWidth :: "nat option"
  vid_maxHeight :: "nat option"

record audio_options =
  aud_quality :: "string option"
  aud_format :: "string option"

record batch_options =
  opt_image :: image_options
  opt_video :: video_options
  opt_audio :: audio_options
  opt_createArchive :: bool

record compression_result =
  originalPath :: string
  compressedPath :: string
  originalSize :: nat
  compressedSize :: nat
  compressionRatio :: int
  format :: string
  pdf_note :: "string option"

text \<open>
  An element of the \<open>results\<close> array of \<open>compressBatch\<close>: a compression result with
  \<open>originalFilename\<close> added, or the object
  \<open>{originalFilename, error, failed: true}\<close>.
\<close>

datatype batch_entry =
    Compressed string compression_result
  | FailedEntry string string

fun failed :: "batch_entry \<Rightarrow> bool" where
  "failed (Compressed n r) = False"
| "failed (FailedEntry n m) = True"

record batch_result =
  files :: "batch_entry list"
  archive :: "string option"
  totalFiles :: nat
  successfulFiles :: nat
  failedFiles :: nat

record batch_summary =
  sum_totalFiles :: nat
  sum_successfulFiles :: nat
  sum_failedFiles :: nat
  totalOriginalSize :: nat
  totalCompressedSize :: nat
  totalSaved :: int
  overallRatio :: int

datatype response_file =
    FileOk string string nat nat int
  | FileError string string

record batch_response =
  resp_jobId :: string
  summary :: batch_summary
  resp_files :: "response_file list"
  resp_archivePath :: "string option"

datatype payload =
    ProgressData int string
  | StatusData string string
  | CompletionData batch_response
  | ErrorData string

text \<open>
  What a run does to the outside: \<open>Emit room event jobId body\<close> is
  \<open>io.to(room).emit(event, {jobId, ...body})\<close> (the payload's timestamp is left out),
  \<open>ArchiveWrite archivePath entries\<close> is one run of the archiver over the given
  (source path, entry name) pairs.
\<close>

datatype effect =
    Emit string string string payload
  | ArchiveWrite string "(string \<times> string) list"

datatype ffmpeg_outcome =
    FfThrows string
  | FfRan "rat option list" "string option"

text \<open>
  The collaborators outside the repository, as functions of the arguments they are
  called with. A field of type \<open>string option\<close> is a call that returns normally
  (\<open>None\<close>) or throws an error with the given message. \<open>fs_stat\<close> is the
  \<open>size\<close> that \<open>fs.stat\<close> reports, \<open>None\<close> when it throws; \<open>fs_access\<close> says
  whether \<open>fs.access\<close> succeeds. \<open>date_now\<close> and \<open>uuidv4\<close> are the clock reading
  and the random id drawn while a unique name is generated for the given file name
  (\<open>uuidv4\<close> at the empty name: the id drawn for the job). \<open>ffmpeg_run\<close> either
  throws while the command is built or started, or reports a list of
  \<open>progress.percent\<close> values (\<open>None\<close>: undefined) and then ends (\<open>None\<close>) or
  fires \<open>error\<close>. \<open>temp_dir\<close> is the route's
  \<open>path.join(__dirname, '..', 'temp')\<close>.
\<close>

record environment =
  fs_stat :: "string \<Rightarrow> nat option"
  fs_copy :: "string \<Rightarrow> string \<Rightarrow> string option"
  fs_access :: "string \<Rightarrow> bool"
  fs_ensureDir :: "string \<Rightarrow> string option"
  path_join :: "string \<Rightarrow> string \<Rightarrow> string"
  date_now :: "string \<Rightarrow> nat"
  uuidv4 :: "string \<Rightarrow> string"
  sharp_open :: "string \<Rightarrow> string option"
  sharp_resize :: "string \<Rightarrow> nat option \<Rightarrow> nat option \<Rightarrow> string option"
  sharp_encode :: "string \<Rightarrow> string \<Rightarrow> nat \<Rightarrow> bool \<Rightarrow> string option"
  sharp_toFile :: "string \<Rightarrow> string \<Rightarrow> string option"
  ffmpeg_run :: "string \<Rightarrow> (string \<times> string) list \<Rightarrow> string \<Rightarrow> ffmpeg_outcome"
  archiver_run :: "string \<Rightarrow> (string \<times> string) list \<Rightarrow> string option"
  temp_dir :: string


section \<open>utils/fileUtils.js\<close>

definition SUPPORTED_TYPES :: "(string \<times> string list) list" where
  "SUPPORTED_TYPES =
     [(''images'', [''.jpg'', ''.jpeg'', ''.png'', ''.webp'', ''.tiff'', ''.tif'', ''.bmp'']),
      (''videos'', [''.mp4'', ''.avi'', ''.mov'', ''.wmv'', ''.flv'', ''.webm'', ''.mkv'', ''.m4v'']),
      (''audio'', [''.mp3'', ''.wav'', ''.flac'', ''.aac'', ''.ogg'', ''.m4a'', ''.wma'']),
      (''documents'', [''.pdf''])]"

definition getFileTypeCategory :: "string \<Rightarrow> string" where
  "getFileTypeCategory name =
     (let ext = toLowerCase (extname name)
      in case find (\<lambda>(category, extensions). ext \<in> set extensions) SUPPORTED_TYPES of
           Some (category, extensions) \<Rightarrow> category
         | None \<Rightarrow> ''unknown'')"

definition generateJobId :: "environment \<Rightarrow> string" where
  "generateJobId env = uuidv4 env []"

definition generateUniqueFilename :: "environment \<Rightarrow> string \<Rightarrow> string \<Rightarrow> string" where
  "generateUniqueFilename env originalName suffix =
     (let ext = extname originalName;
          baseName = basename_ext originalName ext;
          timestamp = date_now env originalName;
          uniqueId = take 8 (uuidv4 env originalName)
      in baseName @ suffix @ ''_'' @ show_nat timestamp @ ''_'' @ uniqueId @ ext)"

definition getFileSize :: "environment \<Rightarrow> string \<Rightarrow> nat" where
  "getFileSize env filePath = (case fs_stat env filePath of Some bytes \<Rightarrow> bytes | None \<Rightarrow> 0)"

definition calculateCompressionRatio :: "nat \<Rightarrow> nat \<Rightarrow> int" where
  "calculateCompressionRatio original compressed =
     (if original = 0 then 0
      else Math_round (fmul (fdiv (of_int (int original - int compressed)) (of_nat original)) 100))"

definition validateFileExists :: "environment \<Rightarrow> string \<Rightarrow> bool" where
  "validateFileExists env filePath = fs_access env filePath"


section \<open>utils/websocketUtils.js\<close>

text \<open>
  The emit functions return the effects they perform; \<open>io\<close> says whether a
  socket.io server was passed, and an empty \<open>jobId\<close> is JavaScript's falsy job id.
\<close>

definition emitProgress :: "bool \<Rightarrow> string \<Rightarrow> int \<Rightarrow> string \<Rightarrow> effect list" where
  "emitProgress io jobId progress message =
     (if \<not> io \<or> jobId = [] then []
      else [Emit jobId ''progress'' jobId (ProgressData progress message)])"

definition emitCompletion :: "bool \<Rightarrow> string \<Rightarrow> batch_response \<Rightarrow> effect list" where
  "emitCompletion io jobId completionData =
     (if \<not> io \<or> jobId = [] then []
      else [Emit jobId ''completed'' jobId (CompletionData completionData)])"

definition emitError :: "bool \<Rightarrow> string \<Rightarrow> string \<Rightarrow> effect list" where
  "emitError io jobId errorData =
     (if \<not> io \<or> jobId = [] then []
      else [Emit jobId ''error'' jobId (ErrorData errorData)])"

definition emitStatus :: "bool \<Rightarrow> string \<Rightarrow> string \<Rightarrow> string \<Rightarrow> effect list" where
  "emitStatus io jobId status message =
     (if \<not> io \<or> jobId = [] then []
      else [Emit jobId ''status'' jobId (StatusData status message)])"

text \<open>
  The socket.io server as this code uses it: \<open>rooms\<close> is the table from a room name
  to the ids of the sockets in it, \<open>inbox\<close> is what each socket has been sent, in
  order, and \<open>activeConnections\<close> is the module's own map of connected sockets.
  \<open>socket.join\<close> and \<open>socket.leave\<close> add and remove one socket in one room;
  \<open>io.to(room).emit\<close> sends to the sockets that are in the room at that moment.
  A connecting socket is put by socket.io into the room named by its own id before the
  \<open>connection\<close> handler runs, and a disconnecting socket is taken out of every room
  before the \<open>disconnect\<close> handler runs; the handlers themselves are those that
  \<open>setupWebSocket\<close> registers. \<open>perform\<close> runs one effect of the emit functions
  on the server.
\<close>

record channel =
  rooms :: "string \<Rightarrow> string set"
  inbox :: "string \<Rightarrow> (string \<times> string \<times> payload) list"
  activeConnections :: "string set"

definition socket_join :: "channel \<Rightarrow> string \<Rightarrow> string \<Rightarrow> channel" where
  "socket_join ch sid room = ch\<lparr>rooms := (rooms ch)(room := insert sid (rooms ch room))\<rparr>"

definition socket_leave :: "channel \<Rightarrow> string \<Rightarrow> string \<Rightarrow> channel" where
  "socket_leave ch sid room = ch\<lparr>rooms := (rooms ch)(room := rooms ch room - {sid})\<rparr>"

definition io_to_emit :: "channel \<Rightarrow> string \<Rightarrow> string \<Rightarrow> string \<times> payload \<Rightarrow> channel" where
  "io_to_emit ch room event data =
     ch\<lparr>inbox := (\<lambda>sid. if sid \<in> rooms ch room then inbox ch sid @ [(event, data)]
                         else inbox ch sid)\<rparr>"

definition on_connection :: "channel \<Rightarrow> string \<Rightarrow> channel" where
  "on_connection ch sid =
     (let joined = socket_join ch sid sid
      in joined\<lparr>activeConnections := insert sid (activeConnections joined)\<rparr>)"

definition on_join_job :: "channel \<Rightarrow> string \<Rightarrow> string \<Rightarrow> channel" where
  "on_join_job ch sid jobId = socket_join ch sid jobId"

definition on_leave_job :: "channel \<Rightarrow> string \<Rightarrow> string \<Rightarrow> channel" where
  "on_leave_job ch sid jobId = socket_leave ch sid jobId"

definition on_disconnect :: "channel \<Rightarrow> string \<Rightarrow> channel" where
  "on_disconnect ch sid =
     (let left = ch\<lparr>rooms := (\<lambda>room. rooms ch room - {sid})\<rparr>
      in left\<lparr>activeConnections := activeConnections left - {sid}\<rparr>)"

definition empty_channel :: channel where
  "empty_channel = \<lparr>rooms = (\<lambda>room. {}), inbox = (\<lambda>sid. []), activeConnections = {}\<rparr>"

fun perform :: "channel \<Rightarrow> effect \<Rightarrow> channel" where
  "perform ch (Emit room event jobId body) = io_to_emit ch room event (jobId, body)"
| "perform ch (ArchiveWrite archivePath entries) = ch"

definition perform_all :: "channel \<Rightarrow> effect list \<Rightarrow> channel" where
  "perform_all ch effects = foldl perform ch effects"


section \<open>services/compressionService.js\<close>

text \<open>
  Each function returns the effects it has performed up to its return or throw,
  and \<open>Inr\<close> of its result or \<open>Inl\<close> of the message of the error it throws.
\<close>

definition truthy_num :: "nat option \<Rightarrow> bool" where
  "truthy_num v = (case v of None \<Rightarrow> False | Some n \<Rightarrow> n \<noteq> 0)"

definition or_default :: "'a \<Rightarrow> 'a option \<Rightarrow> 'a" where
  "or_default d v = (case v of None \<Rightarrow> d | Some x \<Rightarrow> x)"

definition compressImage ::
  "environment \<Rightarrow> string \<Rightarrow> string \<Rightarrow> image_options \<Rightarrow> bool \<Rightarrow> string
     \<Rightarrow> effect list \<times> (string + compression_result)" where
  "compressImage env inputPath outputDir options io jobId =
     (let quality = or_default 80 (img_quality options);
          progressive = or_default True (img_progressive options);
          live = (io \<and> jobId \<noteq> []);
          failure = (\<lambda>m. Inl (''Image compression failed: '' @ m));
          e0 = guarded live (emitStatus io jobId ''processing'' ''Starting image compression...'');
          name = basename inputPath;
          ext = toLowerCase (extname name);
          auto = (if ext = ''.png'' then ''png'' else ''jpeg'');
          outputFormat = (case img_format options of
                            None \<Rightarrow> auto
                          | Some f \<Rightarrow> if f = [] then auto else f);
          outputFilename = generateUniqueFilename env name ''_compressed'';
          outputPath = path_join env outputDir outputFilename;
          resizing = (truthy_num (img_width options) \<or> truthy_num (img_height options))
      in case sharp_open env inputPath of
           Some m \<Rightarrow> (e0, failure m)
         | None \<Rightarrow>
      (case (if resizing
             then sharp_resize env inputPath (img_width options) (img_height options)
             else None) of
           Some m \<Rightarrow> (e0, failure m)
         | None \<Rightarrow>
      (let e1 = e0 @ guarded (resizing \<and> live) (emitProgress io jobId 30 ''Resizing image...'')
       in case (if outputFormat = ''jpeg'' \<or> outputFormat = ''png'' \<or> outputFormat = ''webp''
                then sharp_encode env inputPath outputFormat quality progressive
                else None) of
            Some m \<Rightarrow> (e1, failure m)
          | None \<Rightarrow>
      (let e2 = e1 @ guarded live (emitProgress io jobId 60 ''Applying compression...'')
       in case sharp_toFile env inputPath outputPath of
            Some m \<Rightarrow> (e2, failure m)
          | None \<Rightarrow>
      (let e3 = e2 @ guarded live (emitProgress io jobId 90 ''Finalizing...'');
           original = getFileSize env inputPath;
           compressed = getFileSize env outputPath;
           ratio = calculateCompressionRatio original compressed;
           result = \<lparr>originalPath = inputPath, compressedPath = outputPath,
                     originalSize = original, compressedSize = compressed,
                     compressionRatio = ratio, format = outputFormat, pdf_note = None\<rparr>
       in (e3 @ guarded live (emitProgress io jobId 100 ''Image compression completed!''),
           Inr result))))))"

text \<open>
  The \<open>progress\<close> handler of the two ffmpeg functions: a report whose percent is
  undefined or zero emits nothing.
\<close>

definition ffmpeg_progress :: "bool \<Rightarrow> string \<Rightarrow> string \<Rightarrow> rat option \<Rightarrow> effect list" where
  "ffmpeg_progress io jobId label report =
     (case report of
        None \<Rightarrow> []
      | Some x \<Rightarrow>
          guarded (io \<and> jobId \<noteq> [] \<and> x \<noteq> 0)
            (let percent = Math_round x
             in emitProgress io jobId percent (label @ show_int percent @ ''%'')))"

definition compressVideo ::
  "environment \<Rightarrow> string \<Rightarrow> string \<Rightarrow> video_options \<Rightarrow> bool \<Rightarrow> string
     \<Rightarrow> effect list \<times> (string + compression_result)" where
  "compressVideo env inputPath outputDir options io jobId =
     (let quality = or_default ''medium'' (vid_quality options);
          fmt = or_default ''mp4'' (vid_format options);
          maxWidth = or_default 1920 (vid_maxWidth options);
          maxHeight = or_default 1080 (vid_maxHeight options);
          live = (io \<and> jobId \<noteq> []);
          e0 = guarded live (emitStatus io jobId ''processing'' ''Starting video compression...'');
          name = basename inputPath;
          outputFilename = replaceExtension (generateUniqueFilename env name ''_compressed'') fmt;
          outputPath = path_join env outputDir outputFilename;
          videoBitrate = (if quality = ''low'' then ''500k''
                          else if quality = ''high'' then ''2000k'' else ''1000k'');
          audioBitrate = (if quality = ''low'' then ''64k''
                          else if quality = ''high'' then ''192k'' else ''128k'');
          command = [(''videoCodec'', ''libx264''), (''audioCodec'', ''aac''),
                     (''videoBitrate'', videoBitrate), (''audioBitrate'', audioBitrate),
                     (''size'', show_nat maxWidth @ ''x'' @ show_nat maxHeight),
                     (''autopad'', []), (''format'', fmt)]
      in case ffmpeg_run env inputPath command outputPath of
           FfThrows m \<Rightarrow> (e0, Inl m)
         | FfRan reports ending \<Rightarrow>
      (let e1 = e0 @ concat (map (ffmpeg_progress io jobId ''Processing video... '') reports)
       in case ending of
            Some m \<Rightarrow> (e1, Inl (''Video compression failed: '' @ m))
          | None \<Rightarrow>
      (let original = getFileSize env inputPath;
           compressed = getFileSize env outputPath;
           ratio = calculateCompressionRatio original compressed;
           result = \<lparr>originalPath = inputPath, compressedPath = outputPath,
                     originalSize = original, compressedSize = compressed,
                     compressionRatio = ratio, format = fmt, pdf_note = None\<rparr>
       in (e1 @ guarded live (emitProgress io jobId 100 ''Video compression completed!''),
           Inr result))))"

definition compressAudio ::
  "environment \<Rightarrow> string \<Rightarrow> string \<Rightarrow> audio_options \<Rightarrow> bool \<Rightarrow> string
     \<Rightarrow> effect list \<times> (string + compression_result)" where
  "compressAudio env inputPath outputDir options io jobId =
     (let quality = or_default ''medium'' (aud_quality options);
          fmt = or_default ''mp3'' (aud_format options);
          live = (io \<and> jobId \<noteq> []);
          e0 = guarded live (emitStatus io jobId ''processing'' ''Starting audio compression...'');
          name = basename inputPath;
          outputFilename = replaceExtension (generateUniqueFilename env name ''_compressed'') fmt;
          outputPath = path_join env outputDir outputFilename;
          bitrate = (if quality = ''low'' then ''64k''
                     else if quality = ''high'' then ''192k'' else ''128k'');
          command = [(''audioCodec'', ''libmp3lame''), (''audioBitrate'', bitrate),
                     (''format'', fmt)]
      in case ffmpeg_run env inputPath command outputPath of
           FfThrows m \<Rightarrow> (e0, Inl m)
         | FfRan reports ending \<Rightarrow>
      (let e1 = e0 @ concat (map (ffmpeg_progress io jobId ''Processing audio... '') reports)
       in case ending of
            Some m \<Rightarrow> (e1, Inl (''Audio compression failed: '' @ m))
          | None \<Rightarrow>
      (let original = getFileSize env inputPath;
           compressed = getFileSize env outputPath;
           ratio = calculateCompressionRatio original compressed;
           result = \<lparr>originalPath = inputPath, compressedPath = outputPath,
                     originalSize = original, compressedSize = compressed,
                     compressionRatio = ratio, format = fmt, pdf_note = None\<rparr>
       in (e1 @ guarded live (emitProgress io jobId 100 ''Audio compression completed!''),
           Inr result))))"

definition compressPDF ::
  "environment \<Rightarrow> string \<Rightarrow> string \<Rightarrow> bool \<Rightarrow> string
     \<Rightarrow> effect list \<times> (string + compression_result)" where
  "compressPDF env inputPath outputDir io jobId =
     (let live = (io \<and> jobId \<noteq> []);
          e0 = guarded live (emitStatus io jobId ''processing'' ''Processing PDF...''
                             @ emitProgress io jobId 50 ''Copying PDF file...'');
          name = basename inputPath;
          outputFilename = generateUniqueFilename env name ''_compressed'';
          outputPath = path_join env outputDir outputFilename
      in case fs_copy env inputPath outputPath of
           Some m \<Rightarrow> (e0, Inl (''PDF processing failed: '' @ m))
         | None \<Rightarrow>
      (let original = getFileSize env inputPath;
           compressed = getFileSize env outputPath;
           result = \<lparr>originalPath = inputPath, compressedPath = outputPath,
                     originalSize = original, compressedSize = compressed,
                     compressionRatio = 0, format = ''pdf'',
                     pdf_note = Some ''PDF compression requires additional tools - file copied as-is''\<rparr>
       in (e0 @ guarded live (emitProgress io jobId 100 ''PDF processing completed!''),
           Inr result)))"

text \<open>
  \<open>createArchive\<close>: the entries handed to the archiver are the results that are not
  failed and have a non-empty \<open>compressedPath\<close>, each under its base name.
\<close>

definition archive_entries :: "batch_entry list \<Rightarrow> (string \<times> string) list" where
  "archive_entries results =
     concat (map (\<lambda>r. case r of
                         Compressed n res \<Rightarrow>
                           if compressedPath res \<noteq> []
                           then [(compressedPath res, basename (compressedPath res))] else []
                       | FailedEntry n m \<Rightarrow> []) results)"

definition createArchive ::
  "environment \<Rightarrow> batch_entry list \<Rightarrow> string \<Rightarrow> string \<Rightarrow> effect list \<times> (string + string)" where
  "createArchive env results outputDir archiveName =
     (let archivePath = path_join env outputDir archiveName;
          entries = archive_entries results
      in ([ArchiveWrite archivePath entries],
          case archiver_run env archivePath entries of
            Some m \<Rightarrow> Inl m
          | None \<Rightarrow> Inr archivePath))"

text \<open>The expression of line 352: \<open>Math.round((i / total) * 90)\<close>.\<close>

definition batchProgress :: "nat \<Rightarrow> nat \<Rightarrow> int" where
  "batchProgress i tot = Math_round (fmul (fdiv (of_nat i) (of_nat tot)) 90)"

text \<open>The \<open>switch\<close> inside the \<open>try\<close> of the loop body (lines 362 to 377).\<close>

definition compressByType ::
  "environment \<Rightarrow> file_item \<Rightarrow> string \<Rightarrow> batch_options \<Rightarrow> bool \<Rightarrow> string
     \<Rightarrow> effect list \<times> (string + compression_result)" where
  "compressByType env f outputDir options io jobId =
     (let fileType = getFileTypeCategory (filename f)
      in if fileType = ''images'' then compressImage env (path f) outputDir (opt_image options) io jobId
         else if fileType = ''videos'' then compressVideo env (path f) outputDir (opt_video options) io jobId
         else if fileType = ''audio'' then compressAudio env (path f) outputDir (opt_audio options) io jobId
         else if fileType = ''documents'' then compressPDF env (path f) outputDir io jobId
         else ([], Inl (''Unsupported file type: '' @ fileType)))"

text \<open>
  The loop of \<open>compressBatch\<close> from index \<open>i\<close> on, with the \<open>results\<close> pushed so
  far: the progress event, the \<open>try\<close> with its \<open>catch\<close>, the push.
\<close>

fun batchLoop ::
  "environment \<Rightarrow> string \<Rightarrow> batch_options \<Rightarrow> bool \<Rightarrow> string \<Rightarrow> nat \<Rightarrow> nat
     \<Rightarrow> file_item list \<Rightarrow> batch_entry list \<Rightarrow> effect list \<times> batch_entry list" where
  "batchLoop env outputDir options io jobId tot i [] results = ([], results)"
| "batchLoop env outputDir options io jobId tot i (f # rest) results =
     (let e1 = guarded (io \<and> jobId \<noteq> [])
                 (emitProgress io jobId (batchProgress i tot)
                    (''Processing file '' @ show_nat (i + 1) @ ''/'' @ show_nat tot
                       @ '': '' @ filename f));
          (e2, outcome) = compressByType env f outputDir options io jobId;
          entry = (case outcome of
                     Inr result \<Rightarrow> Compressed (filename f) result
                   | Inl message \<Rightarrow> FailedEntry (filename f) message);
          (e3, final) = batchLoop env outputDir options io jobId tot (i + 1) rest
                          (results @ [entry])
      in (e1 @ e2 @ e3, final))"

definition compressBatch ::
  "environment \<Rightarrow> file_item list \<Rightarrow> string \<Rightarrow> batch_options \<Rightarrow> bool \<Rightarrow> string
     \<Rightarrow> effect list \<times> (string + batch_result)" where
  "compressBatch env fs outputDir options io jobId =
     (let tot = length fs;
          live = (io \<and> jobId \<noteq> []);
          e0 = guarded live
                 (emitStatus io jobId ''processing''
                    (''Starting batch compression of '' @ show_nat tot @ '' files...''));
          (e1, results) = batchLoop env outputDir options io jobId tot 0 fs [];
          finished = guarded live (emitProgress io jobId 100 ''Batch compression completed!'')
      in if 1 < length results \<and> opt_createArchive options
         then
           (let e2 = guarded live (emitProgress io jobId 95 ''Creating archive...'');
                (e3, made) = createArchive env results outputDir ''compressed_files.zip''
            in case made of
                 Inl m \<Rightarrow> (e0 @ e1 @ e2 @ e3, Inl (''Batch compression failed: '' @ m))
               | Inr archivePath \<Rightarrow>
                   (e0 @ e1 @ e2 @ e3 @ finished,
                    Inr \<lparr>files = results, archive = Some archivePath, totalFiles = tot,
                         successfulFiles = length (filter (\<lambda>r. \<not> failed r) results),
                         failedFiles = length (filter failed results)\<rparr>))
         else
           (e0 @ e1 @ finished,
            Inr \<lparr>files = results, archive = None, totalFiles = tot,
                 successfulFiles = length (filter (\<lambda>r. \<not> failed r) results),
                 failedFiles = length (filter failed results)\<rparr>))"


section \<open>routes/compress.js: POST /batch\<close>

text \<open>
  The request body, the totals of lines 167 to 188 and the handler. The formatted size
  strings of the response are left out. The handler answers with a JSON body and a
  status, or hands the error to \<open>next\<close>.
\<close>

record batch_request =
  req_files :: "file_item list"
  req_image :: "image_options option"
  req_video :: "video_options option"
  req_audio :: "audio_options option"
  req_createArchive :: bool

datatype http_outcome =
    JsonError nat string
  | JsonOk batch_response
  | NextError string

definition size_or_0 :: "(compression_result \<Rightarrow> nat) \<Rightarrow> batch_entry \<Rightarrow> nat" where
  "size_or_0 field r = (case r of Compressed n res \<Rightarrow> field res | FailedEntry n m \<Rightarrow> 0)"

definition batchSummary :: "batch_result \<Rightarrow> batch_summary" where
  "batchSummary result =
     (let successful = filter (\<lambda>f. \<not> failed f) (files result);
          original = foldl (\<lambda>sum f. sum + size_or_0 originalSize f) 0 successful;
          compressed = foldl (\<lambda>sum f. sum + size_or_0 compressedSize f) 0 successful;
          saved = int original - int compressed
      in \<lparr>sum_totalFiles = totalFiles result,
          sum_successfulFiles = successfulFiles result,
          sum_failedFiles = failedFiles result,
          totalOriginalSize = original,
          totalCompressedSize = compressed,
          totalSaved = saved,
          overallRatio = (if 0 < original
                          then Math_round (fmul (fdiv (of_int saved) (of_nat original)) 100)
                          else 0)\<rparr>)"

definition responseFile :: "batch_entry \<Rightarrow> response_file" where
  "responseFile r =
     (case r of
        FailedEntry n m \<Rightarrow> FileError n m
      | Compressed n res \<Rightarrow>
          FileOk n (compressedPath res) (originalSize res) (compressedSize res)
            (compressionRatio res))"

definition empty_image_options :: image_options where
  "empty_image_options = \<lparr>img_quality = None, img_format = None, img_width = None,
     img_height = None, img_progressive = None\<rparr>"

definition empty_video_options :: video_options where
  "empty_video_options = \<lparr>vid_quality = None, vid_format = None, vid_maxWidth = None,
     vid_maxHeight = None\<rparr>"

definition empty_audio_options :: audio_options where
  "empty_audio_options = \<lparr>aud_quality = None, aud_format = None\<rparr>"

definition batchOptionsOf :: "batch_request \<Rightarrow> batch_options" where
  "batchOptionsOf req =
     \<lparr>opt_image = or_default empty_image_options (req_image req),
      opt_video = or_default empty_video_options (req_video req),
      opt_audio = or_default empty_audio_options (req_audio req),
      opt_createArchive = req_createArchive req\<rparr>"

definition postBatch :: "environment \<Rightarrow> bool \<Rightarrow> batch_request \<Rightarrow> effect list \<times> http_outcome" where
  "postBatch env io req =
     (let fs = req_files req
      in if fs = [] then ([], JsonError 400 ''Files array is required'')
         else
      (let jobId = generateJobId env
       in case find (\<lambda>f. \<not> validateFileExists env (path f)) fs of
            Some f \<Rightarrow> ([], JsonError 404 (''File not found: '' @ path f))
          | None \<Rightarrow>
      (let tempDir = temp_dir env
       in case fs_ensureDir env tempDir of
            Some m \<Rightarrow> (guarded (io \<and> jobId \<noteq> []) (emitError io jobId m), NextError m)
          | None \<Rightarrow>
      (let e0 = guarded io
                  (emitStatus io jobId ''started''
                     (''Starting batch compression of '' @ show_nat (length fs) @ '' files''));
           batchOptions = batchOptionsOf req;
           (e1, run) = compressBatch env fs tempDir batchOptions io jobId
       in case run of
            Inl m \<Rightarrow> (e0 @ e1 @ guarded (io \<and> jobId \<noteq> []) (emitError io jobId m), NextError m)
          | Inr result \<Rightarrow>
      (let response = \<lparr>resp_jobId = jobId, summary = batchSummary result,
                       resp_files = map responseFile (files result),
                       resp_archivePath = (case archive result of
                                        None \<Rightarrow> None
                                      | Some a \<Rightarrow> if a = [] then None else Some a)\<rparr>
       in (e0 @ e1 @ guarded io (emitCompletion io jobId response), JsonOk response))))))"


text \<open>
  POST /job/:jobId: the same handler over a job id taken from the request's URL.
\<close>

definition postJob ::
  "environment \<Rightarrow> bool \<Rightarrow> string \<Rightarrow> batch_request \<Rightarrow> effect list \<times> http_outcome" where
  "postJob env io jobId req =
     (let fs = req_files req
      in if fs = [] then ([], JsonError 400 ''Files array is required'')
         else
      (case find (\<lambda>f. \<not> validateFileExists env (path f)) fs of
            Some f \<Rightarrow> ([], JsonError 404 (''File not found: '' @ path f))
          | None \<Rightarrow>
      (let tempDir = temp_dir env
       in case fs_ensureDir env tempDir of
            Some m \<Rightarrow> (guarded io (emitError io jobId m), NextError m)
          | None \<Rightarrow>
      (let e0 = guarded io
                  (emitStatus io jobId ''processing''
                     (''Processing '' @ show_nat (length fs) @ '' files''));
           batchOptions = batchOptionsOf req;
           (e1, run) = compressBatch env fs tempDir batchOptions io jobId
       in case run of
            Inl m \<Rightarrow> (e0 @ e1 @ guarded io (emitError io jobId m), NextError m)
          | Inr result \<Rightarrow>
      (let response = \<lparr>resp_jobId = jobId, summary = batchSummary result,
                       resp_files = map responseFile (files result),
                       resp_archivePath = (case archive result of
                                             None \<Rightarrow> None
                                           | Some a \<Rightarrow> if a = [] then None else Some a)\<rparr>
       in (e0 @ e1 @ guarded io (emitCompletion io jobId response), JsonOk response))))))"


section \<open>Notions used in the statements\<close>

text \<open>
  The outcome of the \<open>try\<close> block for one file, the entry that the loop body pushes
  for it, and the effects of one loop iteration at index \<open>i\<close>.
\<close>

definition fileOutcome ::
  "environment \<Rightarrow> string \<Rightarrow> batch_options \<Rightarrow> bool \<Rightarrow> string \<Rightarrow> file_item
     \<Rightarrow> string + compression_result" where
  "fileOutcome env outputDir options io jobId f =
     snd (compressByType env f outputDir options io jobId)"

definition throws ::
  "environment \<Rightarrow> string \<Rightarrow> batch_options \<Rightarrow> bool \<Rightarrow> string \<Rightarrow> file_item \<Rightarrow> bool" where
  "throws env outputDir options io jobId f = isl (fileOutcome env outputDir options io jobId f)"

definition entryFor ::
  "environment \<Rightarrow> string \<Rightarrow> batch_options \<Rightarrow> bool \<Rightarrow> string \<Rightarrow> file_item \<Rightarrow> batch_entry" where
  "entryFor env outputDir options io jobId f =
     (case fileOutcome env outputDir options io jobId f of
        Inr result \<Rightarrow> Compressed (filename f) result
      | Inl message \<Rightarrow> FailedEntry (filename f) message)"

definition fileProgressEvent :: "string \<Rightarrow> nat \<Rightarrow> nat \<Rightarrow> file_item \<Rightarrow> effect" where
  "fileProgressEvent jobId tot i f =
     Emit jobId ''progress'' jobId
       (ProgressData (batchProgress i tot)
          (''Processing file '' @ show_nat (i + 1) @ ''/'' @ show_nat tot @ '': '' @ filename f))"

definition iterationEffects ::
  "environment \<Rightarrow> string \<Rightarrow> batch_options \<Rightarrow> bool \<Rightarrow> string \<Rightarrow> nat \<Rightarrow> nat \<Rightarrow> file_item
     \<Rightarrow> effect list" where
  "iterationEffects env outputDir options io jobId tot i f =
     guarded (io \<and> jobId \<noteq> []) [fileProgressEvent jobId tot i f]
       @ fst (compressByType env f outputDir options io jobId)"

definition succeeded ::
  "environment \<Rightarrow> string \<Rightarrow> batch_options \<Rightarrow> bool \<Rightarrow> string \<Rightarrow> file_item list
     \<Rightarrow> compression_result list" where
  "succeeded env outputDir options io jobId fs =
     concat (map (\<lambda>f. case fileOutcome env outputDir options io jobId f of
                         Inr result \<Rightarrow> [result]
                       | Inl message \<Rightarrow> []) fs)"

text \<open>
  The archive step of a batch: whether \<open>compressBatch\<close> reaches it, what the archiver is
  handed there, and whether the archiver then fails.
\<close>

definition archiveEntriesOf ::
  "environment \<Rightarrow> file_item list \<Rightarrow> string \<Rightarrow> batch_options \<Rightarrow> bool \<Rightarrow> string
     \<Rightarrow> (string \<times> string) list" where
  "archiveEntriesOf env fs outputDir options io jobId =
     archive_entries (map (entryFor env outputDir options io jobId) fs)"

definition archiveFailure ::
  "environment \<Rightarrow> file_item list \<Rightarrow> string \<Rightarrow> batch_options \<Rightarrow> bool \<Rightarrow> string
     \<Rightarrow> string option" where
  "archiveFailure env fs outputDir options io jobId =
     (if 1 < length fs \<and> opt_createArchive options
      then archiver_run env (path_join env outputDir ''compressed_files.zip'')
             (archiveEntriesOf env fs outputDir options io jobId)
      else None)"

definition closingEffects ::
  "environment \<Rightarrow> file_item list \<Rightarrow> string \<Rightarrow> batch_options \<Rightarrow> bool \<Rightarrow> string
     \<Rightarrow> effect list" where
  "closingEffects env fs outputDir options io jobId =
     (let finished = guarded (io \<and> jobId \<noteq> [])
                       [Emit jobId ''progress'' jobId
                          (ProgressData 100 ''Batch compression completed!'')]
      in if 1 < length fs \<and> opt_createArchive options
         then guarded (io \<and> jobId \<noteq> [])
                [Emit jobId ''progress'' jobId (ProgressData 95 ''Creating archive...'')]
              @ [ArchiveWrite (path_join env outputDir ''compressed_files.zip'')
                   (archiveEntriesOf env fs outputDir options io jobId)]
              @ (case archiveFailure env fs outputDir options io jobId of
                   None \<Rightarrow> finished
                 | Some m \<Rightarrow> [])
         else finished)"

fun archiveCalls :: "effect list \<Rightarrow> (string \<times> (string \<times> string) list) list" where
  "archiveCalls [] = []"
| "archiveCalls (Emit room event jobId body # es) = archiveCalls es"
| "archiveCalls (ArchiveWrite archivePath entries # es) = (archivePath, entries) # archiveCalls es"

fun emittedFor :: "string \<Rightarrow> effect \<Rightarrow> bool" where
  "emittedFor j (Emit room event jobId body) = (room = j \<and> jobId = j)"
| "emittedFor j (ArchiveWrite archivePath entries) = False"

fun staysIn :: "string \<Rightarrow> effect \<Rightarrow> bool" where
  "staysIn j (Emit room event jobId body) = (room = j)"
| "staysIn j (ArchiveWrite archivePath entries) = True"

fun progressPercents :: "effect list \<Rightarrow> int list" where
  "progressPercents [] = []"
| "progressPercents (Emit room event jobId (ProgressData p m) # es) = p # progressPercents es"
| "progressPercents (e # es) = progressPercents es"


section \<open>Example inputs\<close>

text \<open>
  An environment in which every codec call succeeds except ffmpeg on
  \<open>/uploads/b.mp4\<close>, the three uploads have 100, 200 and 80 bytes and every other
  file has 50; variants with a failing archiver and with a failing \<open>fs.stat\<close>.
\<close>

definition example_env :: environment where
  "example_env =
     \<lparr>fs_stat = (\<lambda>p. if p = ''/uploads/a.jpg'' then Some 100
                      else if p = ''/uploads/b.mp4'' then Some 200
                      else if p = ''/uploads/c.pdf'' then Some 80
                      else Some 50),
      fs_copy = (\<lambda>src dst. None),
      fs_access = (\<lambda>p. True),
      fs_ensureDir = (\<lambda>d. None),
      path_join = (\<lambda>d n. d @ ''/'' @ n),
      date_now = (\<lambda>n. 7),
      uuidv4 = (\<lambda>n. ''0f8fad5b-d9cb-469f-a165-70867728950e''),
      sharp_open = (\<lambda>p. None),
      sharp_resize = (\<lambda>p w h. None),
      sharp_encode = (\<lambda>p f q g. None),
      sharp_toFile = (\<lambda>p out. None),
      ffmpeg_run = (\<lambda>p command out.
                      if p = ''/uploads/b.mp4''
                      then FfRan [Some 40] (Some ''ffmpeg exited with code 1'')
                      else FfRan [] None),
      archiver_run = (\<lambda>p entries. None),
      temp_dir = ''/app/temp''\<rparr>"

definition full_disk_env :: environment where
  "full_disk_env = example_env\<lparr>archiver_run := (\<lambda>p entries. Some ''ENOSPC'')\<rparr>"

definition no_stat_env :: environment where
  "no_stat_env = example_env\<lparr>fs_stat := (\<lambda>p. None)\<rparr>"

definition lost_output_env :: environment where
  "lost_output_env =
     example_env\<lparr>fs_stat := (\<lambda>p. if p = ''/uploads/a.jpg'' then Some 100
                                  else if p = ''/uploads/c.pdf'' then Some 80 else None)\<rparr>"

definition file_a :: file_item where
  "file_a = \<lparr>filename = ''a.jpg'', path = ''/uploads/a.jpg''\<rparr>"

definition file_b :: file_item where
  "file_b = \<lparr>filename = ''b.mp4'', path = ''/uploads/b.mp4''\<rparr>"

definition file_c :: file_item where
  "file_c = \<lparr>filename = ''c.pdf'', path = ''/uploads/c.pdf''\<rparr>"

definition file_d :: file_item where
  "file_d = \<lparr>filename = ''d.pdf'', path = ''/uploads/d.pdf''\<rparr>"

definition file_txt :: file_item where
  "file_txt = \<lparr>filename = ''notes.txt'', path = ''/uploads/notes.txt''\<rparr>"

definition plain_options :: batch_options where
  "plain_options = \<lparr>opt_image = empty_image_options, opt_video = empty_video_options,
     opt_audio = empty_audio_options, opt_createArchive = False\<rparr>"

definition archive_options :: batch_options where
  "archive_options = plain_options\<lparr>opt_createArchive := True\<rparr>"


definition example_request :: batch_request where
  "example_request = \<lparr>req_files = [file_a, file_c], req_image = None, req_video = None,
     req_audio = None, req_createArchive = True\<rparr>"


definition mixed_request :: batch_request where
  "mixed_request = \<lparr>req_files = [file_a, file_b, file_c], req_image = None,
     req_video = None, req_audio = None, req_createArchive = False\<rparr>"


definition pdf_request :: batch_request where
  "pdf_request = \<lparr>req_files = [file_c], req_image = None, req_video = None,
     req_audio = None, req_createArchive = False\<rparr>"

definition one_observer :: channel where
  "one_observer = on_join_job (on_connection empty_channel ''socket-1'') ''socket-1'' ''job-A''"


section \<open>Properties of the number model\<close>

lemma round_even_lower: "\<lfloor>x\<rfloor> \<le> round_even x"
  by (simp add: round_even_def Let_def)

lemma round_even_upper: "round_even x \<le> \<lfloor>x\<rfloor> + 1"
  by (simp add: round_even_def Let_def)

lemma round_even_of_int: "round_even (of_int n) = n"
  by (simp add: round_even_def Let_def)

lemma round_even_mono: "x \<le> y \<Longrightarrow> round_even x \<le> round_even y"
proof -
  assume xy: "x \<le> y"
  then have f: "\<lfloor>x\<rfloor> \<le> \<lfloor>y\<rfloor>" by (rule floor_mono)
  show ?thesis
  proof (cases "\<lfloor>x\<rfloor> = \<lfloor>y\<rfloor>")
    case True
    with xy show ?thesis by (auto simp: round_even_def Let_def)
  next
    case False
    with f have "\<lfloor>x\<rfloor> + 1 \<le> \<lfloor>y\<rfloor>" by simp
    with round_even_upper [of x] round_even_lower [of y] show ?thesis by linarith
  qed
qed

lemma pow2_mult: "(2::rat) powi a * 2 powi b = 2 powi (a + b)"
  by (simp add: power_int_add)

lemma pow2_div: "(2::rat) powi a / 2 powi b = 2 powi (a - b)"
  by (simp add: power_int_diff)

lemma pow2_less_cancel: "(2::rat) powi a < 2 powi b \<Longrightarrow> a < b"
proof (rule ccontr)
  assume lt: "(2::rat) powi a < 2 powi b" and "\<not> a < b"
  then have "b \<le> a" by simp
  then have "(2::rat) powi b \<le> 2 powi a" by (rule power_int_increasing) simp
  with lt show False by simp
qed

lemma pow2_le_mono: "a \<le> b \<Longrightarrow> (2::rat) powi a \<le> 2 powi b"
  by (rule power_int_increasing) simp_all

lemma bitlen_powi_bounds:
  assumes "0 < p"
  shows "(2::rat) powi (bitlen p - 1) \<le> of_int p" and "of_int p < (2::rat) powi (bitlen p)"
proof -
  from assms have b1: "1 \<le> bitlen p" by (auto simp: bitlen_alt_def)
  from bitlen_bounds [OF assms]
  have lo: "(2::int) ^ nat (bitlen p - 1) \<le> p" and hi: "p < 2 ^ nat (bitlen p)" by simp_all
  from lo have "rat_of_int (2 ^ nat (bitlen p - 1)) \<le> of_int p" by (simp only: of_int_le_iff)
  with b1 show "(2::rat) powi (bitlen p - 1) \<le> of_int p" by (simp add: power_int_def)
  from hi have "rat_of_int p < of_int (2 ^ nat (bitlen p))" by (simp only: of_int_less_iff)
  with b1 show "of_int p < (2::rat) powi (bitlen p)" by (simp add: power_int_def)
qed

lemma expo_bounds:
  assumes "0 < x"
  shows "2 powi (expo x) \<le> x" and "x < 2 powi (expo x + 1)"
proof -
  obtain p q where pq: "quotient_of x = (p, q)" by (cases "quotient_of x")
  then have q: "0 < q" and x: "x = of_int p / of_int q"
    by (simp_all add: quotient_of_denom_pos quotient_of_div)
  from assms x q have p: "0 < p" by (simp add: zero_less_divide_iff)
  define k where "k = bitlen p - bitlen q"
  have e: "expo x = (if 2 powi k \<le> x then k else k - 1)"
    by (simp add: expo_def pq k_def Let_def)
  note bp = bitlen_powi_bounds [OF p] and bq = bitlen_powi_bounds [OF q]
  have qpos: "(0::rat) < of_int q" using q by simp
  have up: "x < 2 powi (k + 1)"
  proof -
    have "x * 2 powi (bitlen q - 1) \<le> x * of_int q" using bq(1) assms by simp
    also have "\<dots> = of_int p" using x qpos by simp
    also have "\<dots> < 2 powi (bitlen p)" by (rule bp(2))
    also have "\<dots> = 2 powi (k + 1) * 2 powi (bitlen q - 1)"
      by (simp add: k_def pow2_mult)
    finally show ?thesis by simp
  qed
  have lo: "2 powi (k - 1) \<le> x"
  proof -
    have "(2::rat) powi (k - 1) * 2 powi (bitlen q) = 2 powi (bitlen p - 1)"
      by (simp add: k_def pow2_mult)
    also have "\<dots> \<le> of_int p" by (rule bp(1))
    also have "\<dots> = x * of_int q" using x qpos by simp
    also have "\<dots> \<le> x * 2 powi (bitlen q)" using bq(2) assms by simp
    finally show ?thesis by simp
  qed
  show "2 powi (expo x) \<le> x" using e lo by simp
  show "x < 2 powi (expo x + 1)" using e up by (simp split: if_splits)
qed

lemma expo_mono:
  assumes "0 < x" "x \<le> y"
  shows "expo x \<le> expo y"
proof -
  from assms have y: "0 < y" by simp
  have "(2::rat) powi (expo x) \<le> x" by (rule expo_bounds(1) [OF assms(1)])
  also have "x \<le> y" by fact
  also have "y < 2 powi (expo y + 1)" by (rule expo_bounds(2) [OF y])
  finally have "(2::rat) powi (expo x) < 2 powi (expo y + 1)" .
  then have "expo x < expo y + 1" by (rule pow2_less_cancel)
  then show ?thesis by simp
qed

lemma to_double_mono:
  assumes "0 \<le> x" "x \<le> y"
  shows "to_double x \<le> to_double y"
proof (cases "x = 0")
  case True
  have "0 \<le> to_double y" using assms True
    by (auto simp: to_double_def Let_def sgn_if intro!: mult_nonneg_nonneg
        order_trans [OF _ round_even_lower])
  with True show ?thesis by (simp add: to_double_def)
next
  case False
  with assms have x: "0 < x" and y: "0 < y" by simp_all
  define ux where "ux = (2::rat) powi (expo x - 52)"
  define uy where "uy = (2::rat) powi (expo y - 52)"
  have ux: "0 < ux" and uy: "0 < uy" by (simp_all add: ux_def uy_def)
  have dx: "to_double x = of_int (round_even (x / ux)) * ux"
    using x by (simp add: to_double_def ux_def Let_def)
  have dy: "to_double y = of_int (round_even (y / uy)) * uy"
    using y by (simp add: to_double_def uy_def Let_def)
  have exy: "expo x \<le> expo y" by (rule expo_mono [OF x assms(2)])
  show ?thesis
  proof (cases "expo x = expo y")
    case True
    then have "ux = uy" by (simp add: ux_def uy_def)
    moreover have "round_even (x / uy) \<le> round_even (y / uy)"
      using assms(2) uy by (intro round_even_mono divide_right_mono) simp_all
    ultimately show ?thesis using uy by (simp add: dx dy)
  next
    case False
    with exy have lt: "expo x + 1 \<le> expo y" by simp
    have "x / ux < 2 powi (expo x + 1) / ux"
      using expo_bounds(2) [OF x] ux by (simp add: divide_strict_right_mono)
    also have "\<dots> = 2 powi 53" by (simp add: ux_def pow2_div)
    finally have "x / ux < of_int (2 ^ 53)" by (simp add: power_int_def)
    then have "\<lfloor>x / ux\<rfloor> < 2 ^ 53" by (simp only: floor_less_iff)
    with round_even_upper [of "x / ux"] have "round_even (x / ux) \<le> 2 ^ 53" by linarith
    then have "rat_of_int (round_even (x / ux)) \<le> of_int (2 ^ 53)" by (simp only: of_int_le_iff)
    then have "rat_of_int (round_even (x / ux)) \<le> 2 powi 53" by (simp add: power_int_def)
    then have "to_double x \<le> 2 powi 53 * ux" using ux by (simp only: dx mult_le_cancel_right_pos)
    also have "\<dots> = 2 powi (53 + (expo x - 52))" unfolding ux_def by (rule pow2_mult)
    also have "\<dots> = 2 powi (expo x + 1)" by (simp add: add.commute)
    also have "\<dots> \<le> 2 powi (expo y)" using lt by (rule pow2_le_mono)
    also have "\<dots> = 2 powi (52 + (expo y - 52))" by simp
    also have "\<dots> = 2 powi 52 * uy" unfolding uy_def by (rule pow2_mult [symmetric])
    also have "\<dots> \<le> to_double y"
    proof -
      have "2 powi (expo y) / uy \<le> y / uy"
        using expo_bounds(1) [OF y] uy by (simp add: divide_right_mono)
      moreover have "2 powi (expo y) / uy = 2 powi 52" by (simp add: uy_def pow2_div)
      ultimately have "of_int (2 ^ 52) \<le> y / uy" by (simp add: power_int_def)
      then have "2 ^ 52 \<le> \<lfloor>y / uy\<rfloor>" by (simp only: le_floor_iff)
      with round_even_lower [of "y / uy"] have "2 ^ 52 \<le> round_even (y / uy)" by linarith
      then have "rat_of_int (2 ^ 52) \<le> of_int (round_even (y / uy))" by (simp only: of_int_le_iff)
      then have "2 powi 52 \<le> rat_of_int (round_even (y / uy))" by (simp add: power_int_def)
      then show ?thesis using uy by (simp only: dy mult_le_cancel_right_pos)
    qed
    finally show ?thesis .
  qed
qed

lemma to_double_nonneg: "0 \<le> x \<Longrightarrow> 0 \<le> to_double x"
  using to_double_mono [of 0 x] by (simp add: to_double_def)

lemma Math_round_eq_round: "Math_round x = round x"
proof -
  have "\<lfloor>x + 1/2\<rfloor> = (if x - of_int \<lfloor>x\<rfloor> < 1/2 then \<lfloor>x\<rfloor> else \<lfloor>x\<rfloor> + 1)"
    by (rule floor_unique) (auto, linarith+)
  then show ?thesis by (simp add: Math_round_def round_def)
qed

lemma Math_round_mono: "x \<le> y \<Longrightarrow> Math_round x \<le> Math_round y"
  by (simp add: Math_round_eq_round round_mono)

lemma to_double_1: "to_double 1 = 1"
  by code_simp

lemma to_double_90: "to_double 90 = 90"
  by code_simp

lemma to_double_100: "to_double 100 = 100"
  by code_simp


section \<open>Compression ratio\<close>

text \<open>
  C6: \<open>calculateCompressionRatio\<close> returns 0 for an original size of 0 and otherwise
  the nearest integer (\<open>round\<close>) to the quotient of the saved bytes by the original
  size, times 100, computed in JavaScript numbers; it is 0 at \<open>(0, x)\<close> for every
  \<open>x\<close>, 50 at \<open>(100, 50)\<close> and the negative ratio -50 at \<open>(100, 150)\<close>.
\<close>

theorem calculateCompressionRatio_values:
  "calculateCompressionRatio original compressed =
     (if original = 0 then 0
      else round (fmul (fdiv (of_int (int original - int compressed)) (of_nat original)) 100))
   \<and> calculateCompressionRatio 0 x = 0
   \<and> calculateCompressionRatio 100 50 = 50
   \<and> calculateCompressionRatio 100 150 = - 50"
proof -
  have general: "calculateCompressionRatio original compressed =
     (if original = 0 then 0
      else round (fmul (fdiv (of_int (int original - int compressed)) (of_nat original)) 100))"
    by (simp add: calculateCompressionRatio_def Math_round_eq_round)
  have zero: "calculateCompressionRatio 0 x = 0"
    by (simp add: calculateCompressionRatio_def)
  have half: "calculateCompressionRatio 100 50 = 50"
    by code_simp
  have grown: "calculateCompressionRatio 100 150 = - 50"
    by code_simp
  from general zero half grown show ?thesis by blast
qed


section \<open>The batch loop\<close>

lemma batchLoop_results:
  "snd (batchLoop env outputDir options io jobId tot i fs results) =
     results @ map (entryFor env outputDir options io jobId) fs"
  by (induction fs arbitrary: i results)
     (simp_all add: Let_def case_prod_beta entryFor_def fileOutcome_def)

lemma batchLoop_step:
  "fst (batchLoop env outputDir options io jobId tot i (f # rest) results) =
     iterationEffects env outputDir options io jobId tot i f
       @ fst (batchLoop env outputDir options io jobId tot (Suc i) rest
                (results @ [entryFor env outputDir options io jobId f]))"
  by (simp add: Let_def case_prod_beta iterationEffects_def guarded_def emitProgress_def
      fileProgressEvent_def entryFor_def fileOutcome_def)

lemma batchLoop_effects:
  "fst (batchLoop env outputDir options io jobId tot i fs results) =
     concat (map (\<lambda>k. iterationEffects env outputDir options io jobId tot (i + k) (fs ! k))
               [0..<length fs])"
proof (induction fs arbitrary: i results)
  case Nil
  then show ?case by simp
next
  case (Cons f rest)
  have shift: "[0..<length (f # rest)] = 0 # map Suc [0..<length rest]"
    by (simp add: upt_conv_Cons map_Suc_upt del: upt_Suc)
  show ?case
    unfolding shift batchLoop_step Cons.IH
    by (simp add: comp_def)
qed

lemma failed_entryFor:
  "failed (entryFor env outputDir options io jobId f) = throws env outputDir options io jobId f"
  by (simp add: entryFor_def throws_def split: sum.splits)

lemma count_failed:
  "length (filter failed (map (entryFor env outputDir options io jobId) fs)) =
     length (filter (throws env outputDir options io jobId) fs)"
  by (simp add: filter_map comp_def failed_entryFor)

lemma count_split: "length (filter (\<lambda>r. \<not> P r) xs) + length (filter P xs) = length xs"
  using sum_length_filter_compl [of P xs] by simp

lemma compressBatch_outcome:
  "snd (compressBatch env fs outputDir options io jobId) =
     (let results = map (entryFor env outputDir options io jobId) fs
      in case archiveFailure env fs outputDir options io jobId of
           Some m \<Rightarrow> Inl (''Batch compression failed: '' @ m)
         | None \<Rightarrow>
             Inr \<lparr>files = results,
                  archive = (if 1 < length fs \<and> opt_createArchive options
                             then Some (path_join env outputDir ''compressed_files.zip'')
                             else None),
                  totalFiles = length fs,
                  successfulFiles = length (filter (\<lambda>r. \<not> failed r) results),
                  failedFiles = length (filter failed results)\<rparr>)"
proof -
  obtain e1 results where loop:
    "batchLoop env outputDir options io jobId (length fs) 0 fs [] = (e1, results)"
    by (cases "batchLoop env outputDir options io jobId (length fs) 0 fs []")
  with batchLoop_results [of env outputDir options io jobId "length fs" 0 fs "[]"]
  have results: "results = map (entryFor env outputDir options io jobId) fs" by simp
  then have len: "length results = length fs" by simp
  show ?thesis
    by (simp add: compressBatch_def Let_def loop results [symmetric] len archiveFailure_def
        archiveEntriesOf_def createArchive_def split: option.splits)
qed


lemma compressBatch_effects:
  "fst (compressBatch env fs outputDir options io jobId) =
     guarded (io \<and> jobId \<noteq> [])
       [Emit jobId ''status'' jobId
          (StatusData ''processing''
             (''Starting batch compression of '' @ show_nat (length fs) @ '' files...''))]
     @ concat (map (\<lambda>i. iterationEffects env outputDir options io jobId (length fs) i (fs ! i))
                 [0..<length fs])
     @ closingEffects env fs outputDir options io jobId"
proof -
  obtain e1 results where loop:
    "batchLoop env outputDir options io jobId (length fs) 0 fs [] = (e1, results)"
    by (cases "batchLoop env outputDir options io jobId (length fs) 0 fs []")
  with batchLoop_results [of env outputDir options io jobId "length fs" 0 fs "[]"]
  have results: "results = map (entryFor env outputDir options io jobId) fs" by simp
  then have len: "length results = length fs" by simp
  from loop batchLoop_effects [of env outputDir options io jobId "length fs" 0 fs "[]"]
  have e1: "e1 = concat (map (\<lambda>i. iterationEffects env outputDir options io jobId (length fs) i
                                 (fs ! i)) [0..<length fs])" by simp
  show ?thesis
    unfolding compressBatch_def Let_def loop prod.case results e1
    by (simp add: archiveFailure_def archiveEntriesOf_def createArchive_def closingEffects_def
        guarded_def emitStatus_def emitProgress_def Let_def split: option.splits)
qed

lemma unknown_category:
  "getFileTypeCategory name = ''unknown'' \<longleftrightarrow>
     toLowerCase (extname name) \<notin> set (concat (map snd SUPPORTED_TYPES))"
  by (simp add: getFileTypeCategory_def SUPPORTED_TYPES_def Let_def)

lemma compressByType_unknown:
  "getFileTypeCategory (filename f) = ''unknown'' \<Longrightarrow>
     compressByType env f outputDir options io jobId = ([], Inl ''Unsupported file type: unknown'')"
  by (simp add: compressByType_def Let_def)


lemma nth_entries:
  "i < length fs \<Longrightarrow>
     map (entryFor env outputDir options io jobId) fs ! i =
       (case fileOutcome env outputDir options io jobId (fs ! i) of
          Inr result \<Rightarrow> Compressed (filename (fs ! i)) result
        | Inl message \<Rightarrow> FailedEntry (filename (fs ! i)) message)"
  by (simp add: entryFor_def)

text \<open>
  C1: the loop pushes exactly one entry per file, in order, a failure record carrying the
  thrown message where the compression of the file throws and the result otherwise, so a
  throw never stops the loop. Unless the archive step fails, \<open>compressBatch\<close> returns
  an aggregate with these entries, \<open>totalFiles = N\<close> and
  \<open>successfulFiles + failedFiles = N\<close>; a batch of three files of which exactly one
  throws yields 3, 2 and 1.
\<close>

theorem batch_isolates_file_failures:
  "snd (batchLoop env outputDir options io jobId (length fs) 0 fs []) =
     map (entryFor env outputDir options io jobId) fs
   \<and> (archiveFailure env fs outputDir options io jobId = None \<longrightarrow>
        (\<exists>agg. snd (compressBatch env fs outputDir options io jobId) = Inr agg
           \<and> files agg = map (entryFor env outputDir options io jobId) fs
           \<and> (\<forall>i m. i < length fs
                  \<and> fileOutcome env outputDir options io jobId (fs ! i) = Inl m
                \<longrightarrow> files agg ! i = FailedEntry (filename (fs ! i)) m)
           \<and> (\<forall>i r. i < length fs
                  \<and> fileOutcome env outputDir options io jobId (fs ! i) = Inr r
                \<longrightarrow> files agg ! i = Compressed (filename (fs ! i)) r)
           \<and> totalFiles agg = length fs
           \<and> successfulFiles agg + failedFiles agg = length fs
           \<and> failedFiles agg = length (filter (throws env outputDir options io jobId) fs)
           \<and> (length fs = 3 \<and> length (filter (throws env outputDir options io jobId) fs) = 1
                \<longrightarrow> totalFiles agg = 3 \<and> successfulFiles agg = 2 \<and> failedFiles agg = 1)))"
proof (intro conjI impI)
  show "snd (batchLoop env outputDir options io jobId (length fs) 0 fs []) =
          map (entryFor env outputDir options io jobId) fs"
    by (simp add: batchLoop_results)
next
  assume ok: "archiveFailure env fs outputDir options io jobId = None"
  define results where "results = map (entryFor env outputDir options io jobId) fs"
  define agg where "agg =
    \<lparr>files = results,
     archive = (if 1 < length fs \<and> opt_createArchive options
                then Some (path_join env outputDir ''compressed_files.zip'') else None),
     totalFiles = length fs,
     successfulFiles = length (filter (\<lambda>r. \<not> failed r) results),
     failedFiles = length (filter failed results)\<rparr>"
  have run: "snd (compressBatch env fs outputDir options io jobId) = Inr agg"
    by (simp add: compressBatch_outcome ok agg_def results_def Let_def)
  have fs: "files agg = map (entryFor env outputDir options io jobId) fs"
    by (simp add: agg_def results_def)
  have tot: "totalFiles agg = length fs" by (simp add: agg_def)
  have nfail: "failedFiles agg = length (filter (throws env outputDir options io jobId) fs)"
    by (simp add: agg_def results_def comp_def failed_entryFor)
  have both: "successfulFiles agg + failedFiles agg = length fs"
    using count_split [of failed results] by (simp add: agg_def results_def)
  have bad: "\<forall>i m. i < length fs \<and> fileOutcome env outputDir options io jobId (fs ! i) = Inl m
               \<longrightarrow> files agg ! i = FailedEntry (filename (fs ! i)) m"
    by (simp add: fs entryFor_def)
  have good: "\<forall>i r. i < length fs \<and> fileOutcome env outputDir options io jobId (fs ! i) = Inr r
               \<longrightarrow> files agg ! i = Compressed (filename (fs ! i)) r"
    by (simp add: fs entryFor_def)
  have three: "length fs = 3 \<and> length (filter (throws env outputDir options io jobId) fs) = 1
      \<longrightarrow> totalFiles agg = 3 \<and> successfulFiles agg = 2 \<and> failedFiles agg = 1"
    using tot nfail both by auto
  from run fs bad good tot both nfail three
  show "\<exists>agg. snd (compressBatch env fs outputDir options io jobId) = Inr agg
           \<and> files agg = map (entryFor env outputDir options io jobId) fs
           \<and> (\<forall>i m. i < length fs
                  \<and> fileOutcome env outputDir options io jobId (fs ! i) = Inl m
                \<longrightarrow> files agg ! i = FailedEntry (filename (fs ! i)) m)
           \<and> (\<forall>i r. i < length fs
                  \<and> fileOutcome env outputDir options io jobId (fs ! i) = Inr r
                \<longrightarrow> files agg ! i = Compressed (filename (fs ! i)) r)
           \<and> totalFiles agg = length fs
           \<and> successfulFiles agg + failedFiles agg = length fs
           \<and> failedFiles agg = length (filter (throws env outputDir options io jobId) fs)
           \<and> (length fs = 3 \<and> length (filter (throws env outputDir options io jobId) fs) = 1
                \<longrightarrow> totalFiles agg = 3 \<and> successfulFiles agg = 2 \<and> failedFiles agg = 1)"
    by blast
qed

theorem batch_isolates_file_failures_witness:
  "archiveFailure example_env [file_a, file_b, file_c] ''/app/temp'' plain_options True ''job-1''
     = None
   \<and> fileOutcome example_env ''/app/temp'' plain_options True ''job-1'' file_b
       = Inl ''Video compression failed: ffmpeg exited with code 1''
   \<and> (\<exists>agg. snd (compressBatch example_env [file_a, file_b, file_c] ''/app/temp''
                     plain_options True ''job-1'') = Inr agg
         \<and> files agg ! 1
             = FailedEntry ''b.mp4'' ''Video compression failed: ffmpeg exited with code 1''
         \<and> totalFiles agg = 3 \<and> successfulFiles agg = 2 \<and> failedFiles agg = 1)"
proof -
  let ?fs = "[file_a, file_b, file_c]"
  have ok: "archiveFailure example_env ?fs ''/app/temp'' plain_options True ''job-1'' = None"
    by (simp add: archiveFailure_def plain_options_def)
  have b: "fileOutcome example_env ''/app/temp'' plain_options True ''job-1'' file_b
             = Inl ''Video compression failed: ffmpeg exited with code 1''"
    by code_simp
  have one: "length (filter (throws example_env ''/app/temp'' plain_options True ''job-1'') ?fs)
               = 1"
    by code_simp
  have name: "filename file_b = ''b.mp4''" by (simp add: file_b_def)
  from batch_isolates_file_failures
         [of example_env "''/app/temp''" plain_options True "''job-1''" ?fs] ok
  obtain agg where
    run: "snd (compressBatch example_env ?fs ''/app/temp'' plain_options True ''job-1'') = Inr agg"
    and bad: "\<forall>i m. i < length ?fs
        \<and> fileOutcome example_env ''/app/temp'' plain_options True ''job-1'' (?fs ! i) = Inl m
        \<longrightarrow> files agg ! i = FailedEntry (filename (?fs ! i)) m"
    and three: "length ?fs = 3
        \<and> length (filter (throws example_env ''/app/temp'' plain_options True ''job-1'') ?fs) = 1
        \<longrightarrow> totalFiles agg = 3 \<and> successfulFiles agg = 2 \<and> failedFiles agg = 1"
    by blast
  from bad [rule_format, of 1] b name
  have entry: "files agg ! 1
      = FailedEntry ''b.mp4'' ''Video compression failed: ffmpeg exited with code 1''"
    by simp
  from three one have counts: "totalFiles agg = 3 \<and> successfulFiles agg = 2 \<and> failedFiles agg = 1"
    by simp
  from ok b run entry counts show ?thesis by blast
qed


section \<open>Unsupported file types\<close>

text \<open>
  C7: a file whose lower-cased extension is in none of the lists of
  \<open>SUPPORTED_TYPES\<close> has category \<open>unknown\<close>; the switch throws for it at once,
  before any effect, the loop records the failure entry
  \<open>Unsupported file type: unknown\<close> at the file's index, and the batch still returns
  its aggregate: \<open>compressBatch\<close> throws only when the archive step fails.
\<close>

theorem unsupported_category_fails_only_its_file:
  assumes ext: "toLowerCase (extname (filename (fs ! i))) \<notin> set (concat (map snd SUPPORTED_TYPES))"
    and i: "i < length fs"
  shows "getFileTypeCategory (filename (fs ! i)) = ''unknown''
    \<and> compressByType env (fs ! i) outputDir options io jobId
        = ([], Inl ''Unsupported file type: unknown'')
    \<and> snd (batchLoop env outputDir options io jobId (length fs) 0 fs []) ! i
        = FailedEntry (filename (fs ! i)) ''Unsupported file type: unknown''
    \<and> (archiveFailure env fs outputDir options io jobId = None \<longrightarrow>
         (\<exists>agg. snd (compressBatch env fs outputDir options io jobId) = Inr agg
            \<and> length (files agg) = length fs
            \<and> files agg ! i = FailedEntry (filename (fs ! i)) ''Unsupported file type: unknown''
            \<and> totalFiles agg = length fs))
    \<and> (\<forall>m. snd (compressBatch env fs outputDir options io jobId) = Inl m
           \<longrightarrow> archiveFailure env fs outputDir options io jobId \<noteq> None)"
proof -
  from ext have cat: "getFileTypeCategory (filename (fs ! i)) = ''unknown''"
    using unknown_category [of "filename (fs ! i)"] by blast
  then have sw: "compressByType env (fs ! i) outputDir options io jobId
                   = ([], Inl ''Unsupported file type: unknown'')"
    by (rule compressByType_unknown)
  then have entry: "entryFor env outputDir options io jobId (fs ! i)
                      = FailedEntry (filename (fs ! i)) ''Unsupported file type: unknown''"
    by (simp add: entryFor_def fileOutcome_def)
  with i have loop: "snd (batchLoop env outputDir options io jobId (length fs) 0 fs []) ! i
                       = FailedEntry (filename (fs ! i)) ''Unsupported file type: unknown''"
    by (simp add: batchLoop_results)
  have ret: "archiveFailure env fs outputDir options io jobId = None \<longrightarrow>
         (\<exists>agg. snd (compressBatch env fs outputDir options io jobId) = Inr agg
            \<and> length (files agg) = length fs
            \<and> files agg ! i = FailedEntry (filename (fs ! i)) ''Unsupported file type: unknown''
            \<and> totalFiles agg = length fs)"
    using i entry by (simp add: compressBatch_outcome Let_def)
  have thrown: "\<forall>m. snd (compressBatch env fs outputDir options io jobId) = Inl m
           \<longrightarrow> archiveFailure env fs outputDir options io jobId \<noteq> None"
    by (simp add: compressBatch_outcome Let_def split: option.splits)
  from cat sw loop ret thrown show ?thesis by blast
qed

theorem unsupported_category_fails_only_its_file_witness:
  "toLowerCase (extname (filename ([file_a, file_txt] ! 1)))
     \<notin> set (concat (map snd SUPPORTED_TYPES))
   \<and> (1::nat) < length [file_a, file_txt]
   \<and> archiveFailure example_env [file_a, file_txt] ''/app/temp'' plain_options True ''job-1''
       = None
   \<and> (\<exists>agg. snd (compressBatch example_env [file_a, file_txt] ''/app/temp'' plain_options
                     True ''job-1'') = Inr agg
         \<and> files agg ! 1 = FailedEntry ''notes.txt'' ''Unsupported file type: unknown''
         \<and> totalFiles agg = 2)"
proof -
  let ?fs = "[file_a, file_txt]"
  have ext: "toLowerCase (extname (filename (?fs ! 1)))
               \<notin> set (concat (map snd SUPPORTED_TYPES))"
    by code_simp
  have i: "(1::nat) < length ?fs" by simp
  have ok: "archiveFailure example_env ?fs ''/app/temp'' plain_options True ''job-1'' = None"
    by (simp add: archiveFailure_def plain_options_def)
  have name: "filename (?fs ! 1) = ''notes.txt''" by (simp add: file_txt_def)
  from unsupported_category_fails_only_its_file
         [OF ext i, of example_env "''/app/temp''" plain_options True "''job-1''"] ok name
  have "\<exists>agg. snd (compressBatch example_env ?fs ''/app/temp'' plain_options True ''job-1'')
                 = Inr agg
          \<and> files agg ! 1 = FailedEntry ''notes.txt'' ''Unsupported file type: unknown''
          \<and> totalFiles agg = 2"
    by auto
  with ext i ok show ?thesis by blast
qed


section \<open>Effects of the compressors\<close>

lemma archiveCalls_append: "archiveCalls (xs @ ys) = archiveCalls xs @ archiveCalls ys"
  by (induction xs rule: archiveCalls.induct) simp_all

lemma archiveCalls_emitted: "list_all (emittedFor j) es \<Longrightarrow> archiveCalls es = []"
  by (induction es rule: archiveCalls.induct) simp_all

lemma archiveCalls_concat_Nil:
  "(\<And>x. x \<in> set xs \<Longrightarrow> archiveCalls (g x) = []) \<Longrightarrow> archiveCalls (concat (map g xs)) = []"
  by (induction xs) (simp_all add: archiveCalls_append)

lemma emitProgress_emitted: "list_all (emittedFor jobId) (emitProgress io jobId p m)"
  by (simp add: emitProgress_def)

lemma emitStatus_emitted: "list_all (emittedFor jobId) (emitStatus io jobId s m)"
  by (simp add: emitStatus_def)

lemma guarded_emitted:
  "list_all (emittedFor j) es \<Longrightarrow> list_all (emittedFor j) (guarded b es)"
  by (simp add: guarded_def)

lemma ffmpeg_progress_emitted:
  "list_all (emittedFor jobId) (concat (map (ffmpeg_progress io jobId label) reports))"
  by (induction reports)
     (simp_all add: ffmpeg_progress_def guarded_def emitProgress_def Let_def split: option.splits)

lemmas emitted_intros =
  emitProgress_emitted emitStatus_emitted guarded_emitted ffmpeg_progress_emitted

lemma compressImage_emitted:
  "list_all (emittedFor jobId) (fst (compressImage env inputPath outputDir options io jobId))"
  by (simp add: compressImage_def Let_def emitted_intros split: option.splits
      split del: if_split cong: if_cong)

lemma compressVideo_emitted:
  "list_all (emittedFor jobId) (fst (compressVideo env inputPath outputDir options io jobId))"
  by (simp add: compressVideo_def Let_def emitted_intros
      split: option.splits ffmpeg_outcome.splits split del: if_split cong: if_cong)

lemma compressAudio_emitted:
  "list_all (emittedFor jobId) (fst (compressAudio env inputPath outputDir options io jobId))"
  by (simp add: compressAudio_def Let_def emitted_intros
      split: option.splits ffmpeg_outcome.splits split del: if_split cong: if_cong)

lemma compressPDF_emitted:
  "list_all (emittedFor jobId) (fst (compressPDF env inputPath outputDir io jobId))"
  by (simp add: compressPDF_def Let_def emitted_intros split: option.splits
      split del: if_split cong: if_cong)

lemma compressByType_emitted:
  "list_all (emittedFor jobId) (fst (compressByType env f outputDir options io jobId))"
  by (simp add: compressByType_def Let_def compressImage_emitted compressVideo_emitted
      compressAudio_emitted compressPDF_emitted)

lemma iterationEffects_emitted:
  "list_all (emittedFor jobId) (iterationEffects env outputDir options io jobId tot i f)"
  by (simp add: iterationEffects_def guarded_def fileProgressEvent_def compressByType_emitted)


section \<open>The archive step\<close>

lemma archiveCalls_closing:
  "archiveCalls (closingEffects env fs outputDir options io jobId) =
     (if 1 < length fs \<and> opt_createArchive options
      then [(path_join env outputDir ''compressed_files.zip'',
             archiveEntriesOf env fs outputDir options io jobId)]
      else [])"
  by (simp add: closingEffects_def Let_def guarded_def archiveCalls_append split: option.splits)

lemma archiveCalls_batch:
  "archiveCalls (fst (compressBatch env fs outputDir options io jobId)) =
     (if 1 < length fs \<and> opt_createArchive options
      then [(path_join env outputDir ''compressed_files.zip'',
             archiveEntriesOf env fs outputDir options io jobId)]
      else [])"
proof -
  have loop: "archiveCalls (concat (map (\<lambda>i. iterationEffects env outputDir options io jobId
                                              (length fs) i (fs ! i)) [0..<length fs])) = []"
    by (rule archiveCalls_concat_Nil) (rule archiveCalls_emitted, rule iterationEffects_emitted)
  have start: "archiveCalls (guarded (io \<and> jobId \<noteq> [])
       [Emit jobId ''status'' jobId
          (StatusData ''processing''
             (''Starting batch compression of '' @ show_nat (length fs) @ '' files...''))]) = []"
    by (simp add: guarded_def)
  show ?thesis
    unfolding compressBatch_effects archiveCalls_append loop start archiveCalls_closing
    by simp
qed

lemma archiveEntriesOf_outcomes:
  "archiveEntriesOf env fs outputDir options io jobId =
     concat (map (\<lambda>f. case fileOutcome env outputDir options io jobId f of
                         Inr result \<Rightarrow>
                           if compressedPath result \<noteq> []
                           then [(compressedPath result, basename (compressedPath result))]
                           else []
                       | Inl message \<Rightarrow> []) fs)"
  by (induction fs)
     (simp_all add: archiveEntriesOf_def archive_entries_def entryFor_def split: sum.splits)

text \<open>
  C4, as the code has it: the archiver is run exactly once when the batch has more than
  one file, failed ones included, and archiving was requested, and not at all otherwise;
  what it is handed are the outputs of the files whose compression returned a result with
  a non-empty output path, in input order, and nothing for a file that failed.
\<close>

theorem archive_step_runs_for_multi_file_batches:
  "archiveCalls (fst (compressBatch env fs outputDir options io jobId)) =
     (if 1 < length fs \<and> opt_createArchive options
      then [(path_join env outputDir ''compressed_files.zip'',
             concat (map (\<lambda>f. case fileOutcome env outputDir options io jobId f of
                                 Inr result \<Rightarrow>
                                   if compressedPath result \<noteq> []
                                   then [(compressedPath result,
                                          basename (compressedPath result))]
                                   else []
                               | Inl message \<Rightarrow> []) fs))]
      else [])"
  by (simp only: archiveCalls_batch archiveEntriesOf_outcomes)

text \<open>
  The claim as stated fails on a batch of two files of which one is unsupported: only
  one file succeeds, and the archiver still runs, over that one output.
\<close>

theorem archive_step_counterexample:
  "archiveCalls (fst (compressBatch example_env [file_a, file_txt] ''/app/temp''
                        archive_options False []))
     = [(''/app/temp/compressed_files.zip'',
         [(''/app/temp/a_compressed_7_0f8fad5b.jpg'', ''a_compressed_7_0f8fad5b.jpg'')])]
   \<and> map_sum id successfulFiles
         (snd (compressBatch example_env [file_a, file_txt] ''/app/temp''
                 archive_options False []))
       = Inr 1
   \<and> \<not> (1 < (1::nat) \<and> opt_createArchive archive_options)"
  by code_simp

text \<open>
  C3, as the code has it: when the archiver fails, \<open>compressBatch\<close> throws
  \<open>Batch compression failed: \<close> followed by the archiver's message and returns no
  aggregate; the route then emits an \<open>error\<close> event instead of \<open>completed\<close> and
  hands the error to \<open>next\<close>.
\<close>

theorem archive_failure_fails_the_job:
  "(archiveFailure env fs outputDir options io jobId = Some m \<longrightarrow>
      snd (compressBatch env fs outputDir options io jobId)
        = Inl (''Batch compression failed: '' @ m))
   \<and> (req_files req \<noteq> []
        \<and> (\<forall>f \<in> set (req_files req). validateFileExists env (path f))
        \<and> fs_ensureDir env (temp_dir env) = None
        \<and> archiveFailure env (req_files req) (temp_dir env) (batchOptionsOf req) io
             (generateJobId env) = Some m
      \<longrightarrow> snd (postBatch env io req) = NextError (''Batch compression failed: '' @ m)
          \<and> fst (postBatch env io req)
              = guarded io (emitStatus io (generateJobId env) ''started''
                   (''Starting batch compression of '' @ show_nat (length (req_files req))
                      @ '' files''))
                @ fst (compressBatch env (req_files req) (temp_dir env) (batchOptionsOf req) io
                         (generateJobId env))
                @ guarded (io \<and> generateJobId env \<noteq> [])
                    (emitError io (generateJobId env) (''Batch compression failed: '' @ m)))"
proof (intro conjI impI)
  assume "archiveFailure env fs outputDir options io jobId = Some m"
  then show "snd (compressBatch env fs outputDir options io jobId)
               = Inl (''Batch compression failed: '' @ m)"
    by (simp add: compressBatch_outcome Let_def)
next
  assume a: "req_files req \<noteq> []
        \<and> (\<forall>f \<in> set (req_files req). validateFileExists env (path f))
        \<and> fs_ensureDir env (temp_dir env) = None
        \<and> archiveFailure env (req_files req) (temp_dir env) (batchOptionsOf req) io
             (generateJobId env) = Some m"
  then have found: "find (\<lambda>f. \<not> validateFileExists env (path f)) (req_files req) = None"
    by (simp add: find_None_iff)
  from a have run: "snd (compressBatch env (req_files req) (temp_dir env) (batchOptionsOf req) io
                      (generateJobId env)) = Inl (''Batch compression failed: '' @ m)"
    by (simp add: compressBatch_outcome Let_def)
  from a found run
  show "snd (postBatch env io req) = NextError (''Batch compression failed: '' @ m)"
    by (simp add: postBatch_def Let_def case_prod_beta)
  from a found run
  show "fst (postBatch env io req)
              = guarded io (emitStatus io (generateJobId env) ''started''
                   (''Starting batch compression of '' @ show_nat (length (req_files req))
                      @ '' files''))
                @ fst (compressBatch env (req_files req) (temp_dir env) (batchOptionsOf req) io
                         (generateJobId env))
                @ guarded (io \<and> generateJobId env \<noteq> [])
                    (emitError io (generateJobId env) (''Batch compression failed: '' @ m))"
    by (simp add: postBatch_def Let_def case_prod_beta)
qed

text \<open>
  The claim as stated fails on two files that both compress, with an archiver that
  reports a full disk: no aggregate is returned and the request ends in \<open>next(error)\<close>.
\<close>

theorem archive_failure_counterexample:
  "map (fileOutcome full_disk_env ''/app/temp'' archive_options False []) [file_a, file_c]
     = [Inr \<lparr>originalPath = ''/uploads/a.jpg'',
             compressedPath = ''/app/temp/a_compressed_7_0f8fad5b.jpg'',
             originalSize = 100, compressedSize = 50, compressionRatio = 50,
             format = ''jpeg'', pdf_note = None\<rparr>,
        Inr \<lparr>originalPath = ''/uploads/c.pdf'',
             compressedPath = ''/app/temp/c_compressed_7_0f8fad5b.pdf'',
             originalSize = 80, compressedSize = 50, compressionRatio = 0,
             format = ''pdf'',
             pdf_note = Some ''PDF compression requires additional tools - file copied as-is''\<rparr>]
   \<and> snd (compressBatch full_disk_env [file_a, file_c] ''/app/temp'' archive_options False [])
       = Inl ''Batch compression failed: ENOSPC''
   \<and> snd (postBatch full_disk_env False example_request)
       = NextError ''Batch compression failed: ENOSPC''"
  by code_simp

theorem archive_failure_fails_the_job_witness:
  "archiveFailure full_disk_env [file_a, file_c] ''/app/temp'' archive_options True ''job-1''
     = Some ''ENOSPC''
   \<and> snd (compressBatch full_disk_env [file_a, file_c] ''/app/temp'' archive_options True
            ''job-1'')
       = Inl ''Batch compression failed: ENOSPC''
   \<and> req_files example_request \<noteq> []
   \<and> fs_ensureDir full_disk_env (temp_dir full_disk_env) = None
   \<and> archiveFailure full_disk_env (req_files example_request) (temp_dir full_disk_env)
        (batchOptionsOf example_request) True (generateJobId full_disk_env) = Some ''ENOSPC''
   \<and> snd (postBatch full_disk_env True example_request)
       = NextError ''Batch compression failed: ENOSPC''"
proof -
  have a1: "archiveFailure full_disk_env [file_a, file_c] ''/app/temp'' archive_options True
              ''job-1'' = Some ''ENOSPC''"
    by (simp add: archiveFailure_def archive_options_def plain_options_def full_disk_env_def)
  have a2: "req_files example_request \<noteq> []
     \<and> (\<forall>f \<in> set (req_files example_request). validateFileExists full_disk_env (path f))
     \<and> fs_ensureDir full_disk_env (temp_dir full_disk_env) = None
     \<and> archiveFailure full_disk_env (req_files example_request) (temp_dir full_disk_env)
          (batchOptionsOf example_request) True (generateJobId full_disk_env) = Some ''ENOSPC''"
    by (simp add: example_request_def validateFileExists_def full_disk_env_def example_env_def
        archiveFailure_def batchOptionsOf_def)
  note inst = archive_failure_fails_the_job
    [of full_disk_env "[file_a, file_c]" "''/app/temp''" archive_options True "''job-1''"
        "''ENOSPC''" example_request]
  from inst a1 have r1: "snd (compressBatch full_disk_env [file_a, file_c] ''/app/temp''
                               archive_options True ''job-1'')
                          = Inl ''Batch compression failed: ENOSPC''"
    by simp
  from inst a2 have r2: "snd (postBatch full_disk_env True example_request)
                          = NextError ''Batch compression failed: ENOSPC''"
    by simp
  from a1 a2 r1 r2 show ?thesis by blast
qed


section \<open>Totals of the batch response\<close>

lemma foldl_add_sum_list:
  "foldl (\<lambda>sum f. sum + g f) (a::nat) xs = a + sum_list (map g xs)"
  by (induction xs arbitrary: a) simp_all

lemma sizes_of_succeeded:
  "sum_list (map (size_or_0 field)
       (filter (\<lambda>r. \<not> failed r) (map (entryFor env outputDir options io jobId) fs))) =
     sum_list (map field (succeeded env outputDir options io jobId fs))"
  by (induction fs) (simp_all add: entryFor_def succeeded_def size_or_0_def split: sum.splits)

lemma length_succeeded:
  "length (filter (\<lambda>r. \<not> failed r) (map (entryFor env outputDir options io jobId) fs)) =
     length (succeeded env outputDir options io jobId fs)"
  by (induction fs) (simp_all add: entryFor_def succeeded_def split: sum.splits)

lemma postBatch_ok:
  assumes "snd (postBatch env io req) = JsonOk response"
  shows "\<exists>result. snd (compressBatch env (req_files req) (temp_dir env) (batchOptionsOf req) io
                          (generateJobId env)) = Inr result
           \<and> summary response = batchSummary result"
  using assms
  by (auto simp: postBatch_def Let_def case_prod_beta
      split: if_splits option.splits sum.splits)


text \<open>
  C5: in every batch response the summary carries the number of submitted files, the
  number of files that succeeded and the number that failed, the sum of the original
  sizes and the sum of the compressed sizes of the succeeded files, and as overall ratio
  \<open>round((\<Sigma>original - \<Sigma>compressed) / \<Sigma>original * 100)\<close>, computed in JavaScript
  numbers, or 0 when \<open>\<Sigma>original\<close> is 0.
\<close>

theorem batch_response_totals:
  assumes "snd (postBatch env io req) = JsonOk response"
  shows "(let fs = req_files req;
              good = succeeded env (temp_dir env) (batchOptionsOf req) io (generateJobId env) fs;
              original = sum_list (map originalSize good);
              compressed = sum_list (map compressedSize good)
          in sum_totalFiles (summary response) = length fs
           \<and> sum_successfulFiles (summary response) = length good
           \<and> sum_failedFiles (summary response)
               = length (filter (throws env (temp_dir env) (batchOptionsOf req) io
                                   (generateJobId env)) fs)
           \<and> totalOriginalSize (summary response) = original
           \<and> totalCompressedSize (summary response) = compressed
           \<and> overallRatio (summary response)
               = (if original = 0 then 0
                  else round (fmul (fdiv (of_int (int original - int compressed))
                                      (of_nat original)) 100)))"
proof -
  let ?dir = "temp_dir env" and ?opts = "batchOptionsOf req" and ?job = "generateJobId env"
  let ?fs = "req_files req"
  from postBatch_ok [OF assms] obtain result where
    run: "snd (compressBatch env ?fs ?dir ?opts io ?job) = Inr result"
    and sm: "summary response = batchSummary result"
    by blast
  from run have fs: "files result = map (entryFor env ?dir ?opts io ?job) ?fs"
    and tot: "totalFiles result = length ?fs"
    and good: "successfulFiles result
                 = length (filter (\<lambda>r. \<not> failed r) (map (entryFor env ?dir ?opts io ?job) ?fs))"
    and bad: "failedFiles result
                 = length (filter failed (map (entryFor env ?dir ?opts io ?job) ?fs))"
    by (auto simp: compressBatch_outcome Let_def split: option.splits)
  have orig: "totalOriginalSize (batchSummary result)
                = sum_list (map originalSize (succeeded env ?dir ?opts io ?job ?fs))"
    by (simp add: batchSummary_def Let_def fs foldl_add_sum_list sizes_of_succeeded)
  have comp: "totalCompressedSize (batchSummary result)
                = sum_list (map compressedSize (succeeded env ?dir ?opts io ?job ?fs))"
    by (simp add: batchSummary_def Let_def fs foldl_add_sum_list sizes_of_succeeded)
  have ratio: "overallRatio (batchSummary result)
     = (if totalOriginalSize (batchSummary result) = 0 then 0
        else round (fmul (fdiv (of_int (int (totalOriginalSize (batchSummary result))
                                        - int (totalCompressedSize (batchSummary result))))
                            (of_nat (totalOriginalSize (batchSummary result)))) 100))"
    by (simp add: batchSummary_def Let_def Math_round_eq_round)
  have counts: "sum_totalFiles (batchSummary result) = length ?fs
      \<and> sum_successfulFiles (batchSummary result) = length (succeeded env ?dir ?opts io ?job ?fs)
      \<and> sum_failedFiles (batchSummary result)
          = length (filter (throws env ?dir ?opts io ?job) ?fs)"
  proof -
    have "sum_totalFiles (batchSummary result) = totalFiles result"
      and "sum_successfulFiles (batchSummary result) = successfulFiles result"
      and "sum_failedFiles (batchSummary result) = failedFiles result"
      by (simp_all add: batchSummary_def Let_def)
    then show ?thesis
      by (simp only: tot good bad length_succeeded count_failed)
  qed
  show ?thesis
    unfolding Let_def sm using counts orig comp ratio by simp
qed

theorem batch_response_totals_witness:
  "snd (postBatch example_env False mixed_request)
     = JsonOk \<lparr>resp_jobId = ''0f8fad5b-d9cb-469f-a165-70867728950e'',
               summary = \<lparr>sum_totalFiles = 3, sum_successfulFiles = 2, sum_failedFiles = 1,
                            totalOriginalSize = 180, totalCompressedSize = 100,
                            totalSaved = 80, overallRatio = 44\<rparr>,
               resp_files =
                 [FileOk ''a.jpg'' ''/app/temp/a_compressed_7_0f8fad5b.jpg'' 100 50 50,
                  FileError ''b.mp4'' ''Video compression failed: ffmpeg exited with code 1'',
                  FileOk ''c.pdf'' ''/app/temp/c_compressed_7_0f8fad5b.pdf'' 80 50 0],
               resp_archivePath = None\<rparr>
   \<and> sum_list (map originalSize
         (succeeded example_env (temp_dir example_env) (batchOptionsOf mixed_request) False
            (generateJobId example_env) (req_files mixed_request))) = 180
   \<and> sum_list (map compressedSize
         (succeeded example_env (temp_dir example_env) (batchOptionsOf mixed_request) False
            (generateJobId example_env) (req_files mixed_request))) = 100
   \<and> round (fmul (fdiv (of_int (int 180 - int 100)) (of_nat 180)) 100) = 44"
proof -
  let ?response = "\<lparr>resp_jobId = ''0f8fad5b-d9cb-469f-a165-70867728950e'',
               summary = \<lparr>sum_totalFiles = 3, sum_successfulFiles = 2, sum_failedFiles = 1,
                            totalOriginalSize = 180, totalCompressedSize = 100,
                            totalSaved = 80, overallRatio = 44\<rparr>,
               resp_files =
                 [FileOk ''a.jpg'' ''/app/temp/a_compressed_7_0f8fad5b.jpg'' 100 50 50,
                  FileError ''b.mp4'' ''Video compression failed: ffmpeg exited with code 1'',
                  FileOk ''c.pdf'' ''/app/temp/c_compressed_7_0f8fad5b.pdf'' 80 50 0],
               resp_archivePath = None\<rparr>"
  have run: "snd (postBatch example_env False mixed_request) = JsonOk ?response"
    by code_simp
  have orig: "sum_list (map originalSize
         (succeeded example_env (temp_dir example_env) (batchOptionsOf mixed_request) False
            (generateJobId example_env) (req_files mixed_request))) = 180"
    by code_simp
  have comp: "sum_list (map compressedSize
         (succeeded example_env (temp_dir example_env) (batchOptionsOf mixed_request) False
            (generateJobId example_env) (req_files mixed_request))) = 100"
    by code_simp
  from batch_response_totals [OF run]
  have "overallRatio (summary ?response)
          = (if sum_list (map originalSize
                 (succeeded example_env (temp_dir example_env) (batchOptionsOf mixed_request)
                    False (generateJobId example_env) (req_files mixed_request))) = 0
             then 0
             else round (fmul (fdiv (of_int (int (sum_list (map originalSize
                 (succeeded example_env (temp_dir example_env) (batchOptionsOf mixed_request)
                    False (generateJobId example_env) (req_files mixed_request))))
               - int (sum_list (map compressedSize
                 (succeeded example_env (temp_dir example_env) (batchOptionsOf mixed_request)
                    False (generateJobId example_env) (req_files mixed_request))))))
               (of_nat (sum_list (map originalSize
                 (succeeded example_env (temp_dir example_env) (batchOptionsOf mixed_request)
                    False (generateJobId example_env) (req_files mixed_request)))))) 100))"
    unfolding Let_def by blast
  then have "round (fmul (fdiv (of_int (int 180 - int 100)) (of_nat 180)) 100) = 44"
    unfolding orig comp by simp
  with run orig comp show ?thesis by blast
qed


section \<open>File sizes\<close>

lemma ratio_of_nothing_left:
  "0 < original \<Longrightarrow> calculateCompressionRatio original 0 = 100"
proof -
  assume "0 < original"
  then have "fdiv (of_int (int original - int 0)) (of_nat original) = 1"
    by (simp add: fdiv_def to_double_1)
  then show ?thesis
    using \<open>0 < original\<close>
    by (simp add: calculateCompressionRatio_def fmul_def to_double_100 Math_round_eq_round)
qed

lemma compressImage_result:
  assumes "compressImage env inputPath outputDir options io jobId = (es, Inr r)"
  shows "originalSize r = getFileSize env inputPath
       \<and> compressedSize r = getFileSize env (compressedPath r)
       \<and> compressionRatio r = calculateCompressionRatio (originalSize r) (compressedSize r)"
  using assms
  by (auto simp: compressImage_def Let_def split: option.splits
      split del: if_split cong: if_cong)

lemma compressVideo_result:
  assumes "compressVideo env inputPath outputDir options io jobId = (es, Inr r)"
  shows "originalSize r = getFileSize env inputPath
       \<and> compressedSize r = getFileSize env (compressedPath r)
       \<and> compressionRatio r = calculateCompressionRatio (originalSize r) (compressedSize r)"
  using assms
  by (auto simp: compressVideo_def Let_def split: option.splits ffmpeg_outcome.splits
      split del: if_split cong: if_cong)

lemma compressAudio_result:
  assumes "compressAudio env inputPath outputDir options io jobId = (es, Inr r)"
  shows "originalSize r = getFileSize env inputPath
       \<and> compressedSize r = getFileSize env (compressedPath r)
       \<and> compressionRatio r = calculateCompressionRatio (originalSize r) (compressedSize r)"
  using assms
  by (auto simp: compressAudio_def Let_def split: option.splits ffmpeg_outcome.splits
      split del: if_split cong: if_cong)

lemma compressPDF_result:
  assumes "compressPDF env inputPath outputDir io jobId = (es, Inr r)"
  shows "originalSize r = getFileSize env inputPath
       \<and> compressedSize r = getFileSize env (compressedPath r)
       \<and> compressionRatio r = 0"
  using assms
  by (auto simp: compressPDF_def Let_def split: option.splits
      split del: if_split cong: if_cong)


text \<open>
  C10, as the code has it: \<open>getFileSize\<close> has no error outcome; it returns the byte
  count when \<open>fs.stat\<close> succeeds and 0 when it throws. So a result of the image,
  video or audio compressor whose output cannot be statted has \<open>compressedSize = 0\<close>,
  and its ratio is 100 when the original size is positive and 0 when the original size is
  0 as well; a PDF result then has \<open>compressedSize = 0\<close> and its fixed ratio 0.
\<close>

theorem getFileSize_never_fails:
  "(\<forall>n. fs_stat env p = Some n \<longrightarrow> getFileSize env p = n)
   \<and> (fs_stat env p = None \<longrightarrow> getFileSize env p = 0)
   \<and> (compressImage env inputPath outputDir imageOptions io jobId = (es, Inr r)
        \<and> fs_stat env (compressedPath r) = None
      \<longrightarrow> compressedSize r = 0
          \<and> compressionRatio r = (if originalSize r = 0 then 0 else 100))
   \<and> (compressVideo env inputPath outputDir videoOptions io jobId = (es, Inr r)
        \<and> fs_stat env (compressedPath r) = None
      \<longrightarrow> compressedSize r = 0
          \<and> compressionRatio r = (if originalSize r = 0 then 0 else 100))
   \<and> (compressAudio env inputPath outputDir audioOptions io jobId = (es, Inr r)
        \<and> fs_stat env (compressedPath r) = None
      \<longrightarrow> compressedSize r = 0
          \<and> compressionRatio r = (if originalSize r = 0 then 0 else 100))
   \<and> (compressPDF env inputPath outputDir io jobId = (es, Inr r)
        \<and> fs_stat env (compressedPath r) = None
      \<longrightarrow> compressedSize r = 0 \<and> compressionRatio r = 0)"
proof -
  have lost: "compressedSize r = 0 \<and> compressionRatio r = (if originalSize r = 0 then 0 else 100)"
    if "fs_stat env (compressedPath r) = None"
      and "originalSize r = getFileSize env inputPath
           \<and> compressedSize r = getFileSize env (compressedPath r)
           \<and> compressionRatio r = calculateCompressionRatio (originalSize r) (compressedSize r)"
  proof (cases "originalSize r = 0")
    case True
    with that show ?thesis by (simp add: getFileSize_def calculateCompressionRatio_def)
  next
    case False
    with that show ?thesis by (simp add: getFileSize_def ratio_of_nothing_left)
  qed
  have stat: "(\<forall>n. fs_stat env p = Some n \<longrightarrow> getFileSize env p = n)
      \<and> (fs_stat env p = None \<longrightarrow> getFileSize env p = 0)"
    by (simp add: getFileSize_def)
  have image: "compressImage env inputPath outputDir imageOptions io jobId = (es, Inr r)
        \<and> fs_stat env (compressedPath r) = None
      \<longrightarrow> compressedSize r = 0
          \<and> compressionRatio r = (if originalSize r = 0 then 0 else 100)"
    using lost compressImage_result [of env inputPath outputDir imageOptions io jobId es r]
    by blast
  have video: "compressVideo env inputPath outputDir videoOptions io jobId = (es, Inr r)
        \<and> fs_stat env (compressedPath r) = None
      \<longrightarrow> compressedSize r = 0
          \<and> compressionRatio r = (if originalSize r = 0 then 0 else 100)"
    using lost compressVideo_result [of env inputPath outputDir videoOptions io jobId es r]
    by blast
  have audio: "compressAudio env inputPath outputDir audioOptions io jobId = (es, Inr r)
        \<and> fs_stat env (compressedPath r) = None
      \<longrightarrow> compressedSize r = 0
          \<and> compressionRatio r = (if originalSize r = 0 then 0 else 100)"
    using lost compressAudio_result [of env inputPath outputDir audioOptions io jobId es r]
    by blast
  have pdf: "compressPDF env inputPath outputDir io jobId = (es, Inr r)
        \<and> fs_stat env (compressedPath r) = None
      \<longrightarrow> compressedSize r = 0 \<and> compressionRatio r = 0"
    using compressPDF_result [of env inputPath outputDir io jobId es r]
    by (auto simp: getFileSize_def)
  from stat image video audio pdf show ?thesis by blast
qed

theorem getFileSize_never_fails_witness:
  "fs_stat lost_output_env ''/uploads/a.jpg'' = Some 100
   \<and> getFileSize lost_output_env ''/uploads/a.jpg'' = 100
   \<and> fs_stat lost_output_env ''/app/temp/a_compressed_7_0f8fad5b.jpg'' = None
   \<and> getFileSize lost_output_env ''/app/temp/a_compressed_7_0f8fad5b.jpg'' = 0
   \<and> compressImage lost_output_env ''/uploads/a.jpg'' ''/app/temp'' empty_image_options False []
       = ([], Inr \<lparr>originalPath = ''/uploads/a.jpg'',
                    compressedPath = ''/app/temp/a_compressed_7_0f8fad5b.jpg'',
                    originalSize = 100, compressedSize = 0, compressionRatio = 100,
                    format = ''jpeg'', pdf_note = None\<rparr>)"
proof -
  let ?out = "''/app/temp/a_compressed_7_0f8fad5b.jpg''"
  have s1: "fs_stat lost_output_env ''/uploads/a.jpg'' = Some 100"
    by (simp add: lost_output_env_def)
  have s2: "fs_stat lost_output_env ?out = None"
    by (simp add: lost_output_env_def)
  note a = getFileSize_never_fails [of lost_output_env "''/uploads/a.jpg''"]
  note b = getFileSize_never_fails [of lost_output_env ?out]
  from a s1 have g1: "getFileSize lost_output_env ''/uploads/a.jpg'' = 100" by blast
  from b s2 have g2: "getFileSize lost_output_env ?out = 0" by blast
  have run: "compressImage lost_output_env ''/uploads/a.jpg'' ''/app/temp'' empty_image_options
               False []
       = ([], Inr \<lparr>originalPath = ''/uploads/a.jpg'', compressedPath = ?out,
                    originalSize = 100, compressedSize = 0, compressionRatio = 100,
                    format = ''jpeg'', pdf_note = None\<rparr>)"
    by code_simp
  from s1 g1 s2 g2 run show ?thesis by blast
qed

text \<open>
  The claim as stated fails where the original size is 0 too (here no file can be
  statted), and for a PDF, whose ratio is the constant 0: in both results the output
  cannot be statted and the ratio is 0, not 100.
\<close>

theorem lost_output_ratio_counterexample:
  "fs_stat no_stat_env ''/app/temp/a_compressed_7_0f8fad5b.jpg'' = None
   \<and> snd (compressImage no_stat_env ''/uploads/a.jpg'' ''/app/temp'' empty_image_options
            False [])
       = Inr \<lparr>originalPath = ''/uploads/a.jpg'',
               compressedPath = ''/app/temp/a_compressed_7_0f8fad5b.jpg'',
               originalSize = 0, compressedSize = 0, compressionRatio = 0,
               format = ''jpeg'', pdf_note = None\<rparr>
   \<and> fs_stat lost_output_env ''/app/temp/c_compressed_7_0f8fad5b.pdf'' = None
   \<and> snd (compressPDF lost_output_env ''/uploads/c.pdf'' ''/app/temp'' False [])
       = Inr \<lparr>originalPath = ''/uploads/c.pdf'',
               compressedPath = ''/app/temp/c_compressed_7_0f8fad5b.pdf'',
               originalSize = 80, compressedSize = 0, compressionRatio = 0,
               format = ''pdf'',
               pdf_note = Some ''PDF compression requires additional tools - file copied as-is''\<rparr>"
  by code_simp


section \<open>The progress channel\<close>

lemma rooms_perform: "rooms (perform ch e) = rooms ch"
  by (cases e) (simp_all add: io_to_emit_def)

lemma rooms_perform_all: "rooms (perform_all ch es) = rooms ch"
  unfolding perform_all_def
  by (induction es arbitrary: ch) (simp_all add: rooms_perform)

lemma inbox_perform_other:
  "staysIn B e \<Longrightarrow> sid \<notin> rooms ch B \<Longrightarrow> inbox (perform ch e) sid = inbox ch sid"
  by (cases e) (simp_all add: io_to_emit_def)

lemma inbox_perform_all_other:
  "list_all (staysIn B) es \<Longrightarrow> sid \<notin> rooms ch B
     \<Longrightarrow> inbox (perform_all ch es) sid = inbox ch sid"
  unfolding perform_all_def
proof (induction es arbitrary: ch)
  case Nil
  then show ?case by simp
next
  case (Cons e es)
  from Cons.prems have e: "staysIn B e" and es: "list_all (staysIn B) es" by simp_all
  from Cons.prems have "sid \<notin> rooms (perform ch e) B" by (simp add: rooms_perform)
  with Cons.IH [OF es] have "inbox (foldl perform (perform ch e) es) sid = inbox (perform ch e) sid"
    by blast
  also have "\<dots> = inbox ch sid" using e Cons.prems(2) by (rule inbox_perform_other)
  finally show ?case by simp
qed


lemma emittedFor_staysIn: "emittedFor j e \<Longrightarrow> staysIn j e"
  by (cases e) simp_all

lemma list_all_emitted_staysIn: "list_all (emittedFor j) es \<Longrightarrow> list_all (staysIn j) es"
  by (induction es) (simp_all add: emittedFor_staysIn)

lemma compressBatch_staysIn:
  "list_all (staysIn jobId) (fst (compressBatch env fs outputDir options io jobId))"
proof -
  have "list_all (staysIn jobId)
          (concat (map (\<lambda>i. iterationEffects env outputDir options io jobId (length fs) i
                              (fs ! i)) [0..<length fs]))"
    by (simp add: list_all_iff)
       (metis list_all_iff list_all_emitted_staysIn iterationEffects_emitted)
  then show ?thesis
    by (simp add: compressBatch_effects closingEffects_def guarded_def Let_def
        split: option.splits)
qed




text \<open>
  C8, as the code has it: for distinct job ids \<open>A\<close> and \<open>B\<close> and a socket whose
  rooms are at most \<open>A\<close>'s and the room under its own id, nothing published under
  \<open>B\<close> reaches the socket, provided \<open>B\<close> is not the socket's own id: not through
  any of the four emit functions, and not through a whole run of \<open>compressBatch\<close>
  under job id \<open>B\<close>. Its inbox is what it was.
\<close>

theorem topic_isolation:
  assumes "A \<noteq> B"
    and "B \<noteq> sid"
    and "\<forall>room. sid \<in> rooms ch room \<longrightarrow> room = A \<or> room = sid"
  shows "inbox (perform_all ch (emitProgress io B progress message)) sid = inbox ch sid
       \<and> inbox (perform_all ch (emitStatus io B status message)) sid = inbox ch sid
       \<and> inbox (perform_all ch (emitCompletion io B response)) sid = inbox ch sid
       \<and> inbox (perform_all ch (emitError io B errorData)) sid = inbox ch sid
       \<and> inbox (perform_all ch (fst (compressBatch env fs outputDir options io B))) sid
           = inbox ch sid"
proof -
  from assms have out: "sid \<notin> rooms ch B" by blast
  have p: "list_all (staysIn B) (emitProgress io B progress message)"
    and s: "list_all (staysIn B) (emitStatus io B status message)"
    and c: "list_all (staysIn B) (emitCompletion io B response)"
    and e: "list_all (staysIn B) (emitError io B errorData)"
    by (simp_all add: emitProgress_def emitStatus_def emitCompletion_def emitError_def)
  note b = compressBatch_staysIn [of B env fs outputDir options io]
  from p s c e b out show ?thesis
    by (simp add: inbox_perform_all_other)
qed

theorem topic_isolation_witness:
  "''job-A'' \<noteq> ''job-B''
   \<and> ''job-B'' \<noteq> ''socket-1''
   \<and> {room. ''socket-1'' \<in> rooms one_observer room} = {''job-A'', ''socket-1''}
   \<and> inbox (perform_all one_observer (emitProgress True ''job-B'' 45 ''Processing file 2/2''))
        ''socket-1'' = []
   \<and> inbox (perform_all one_observer (emitProgress True ''job-A'' 45 ''Processing file 2/2''))
        ''socket-1'' = [(''progress'', ''job-A'', ProgressData 45 ''Processing file 2/2'')]"
proof -
  have ne: "''job-A'' \<noteq> ''job-B''" and own_id: "''job-B'' \<noteq> ''socket-1''" by simp_all
  have only: "\<forall>room. ''socket-1'' \<in> rooms one_observer room
                \<longrightarrow> room = ''job-A'' \<or> room = ''socket-1''"
    by (simp add: one_observer_def on_join_job_def on_connection_def socket_join_def
        empty_channel_def Let_def)
  have before: "inbox one_observer ''socket-1'' = []"
    by (simp add: one_observer_def on_join_job_def on_connection_def socket_join_def
        empty_channel_def Let_def)
  from topic_isolation [OF ne own_id only] before
  have other: "inbox (perform_all one_observer
                 (emitProgress True ''job-B'' 45 ''Processing file 2/2'')) ''socket-1'' = []"
    by simp
  have own: "inbox (perform_all one_observer
                 (emitProgress True ''job-A'' 45 ''Processing file 2/2'')) ''socket-1''
               = [(''progress'', ''job-A'', ProgressData 45 ''Processing file 2/2'')]"
    by (simp add: perform_all_def emitProgress_def io_to_emit_def one_observer_def
        on_join_job_def on_connection_def socket_join_def empty_channel_def Let_def)
  have a: "''socket-1'' \<in> rooms one_observer ''job-A''"
    and b: "''socket-1'' \<in> rooms one_observer ''socket-1''"
    by (simp_all add: one_observer_def on_join_job_def on_connection_def socket_join_def
        empty_channel_def Let_def)
  with only have rooms: "{room. ''socket-1'' \<in> rooms one_observer room}
                           = {''job-A'', ''socket-1''}"
    by blast
  from ne own_id rooms other own show ?thesis by blast
qed

text \<open>
  The claim as stated fails for the job id that equals the observer's socket id, which
  POST /job/:jobId accepts from the URL: a socket that connected and joined only
  \<open>job-A\<close> is also in the room under its own id, and receives what is published
  under that id, by \<open>emitProgress\<close> and by a whole request.
\<close>

theorem topic_isolation_counterexample:
  "''job-A'' \<noteq> ''socket-1''
   \<and> one_observer = on_join_job (on_connection empty_channel ''socket-1'') ''socket-1'' ''job-A''
   \<and> inbox one_observer ''socket-1'' = []
   \<and> inbox (perform_all one_observer
              (emitProgress True ''socket-1'' 45 ''Processing file 2/2: d.pdf'')) ''socket-1''
       = [(''progress'', ''socket-1'', ProgressData 45 ''Processing file 2/2: d.pdf'')]
   \<and> map fst (inbox (perform_all one_observer
                       (fst (postJob example_env True ''socket-1'' pdf_request))) ''socket-1'')
       = [''status'', ''status'', ''progress'', ''status'', ''progress'', ''progress'',
          ''progress'', ''completed'']"
proof -
  have ne: "''job-A'' \<noteq> ''socket-1''" by simp
  have before: "inbox one_observer ''socket-1'' = []"
    by (simp add: one_observer_def on_join_job_def on_connection_def socket_join_def
        empty_channel_def Let_def)
  have one: "inbox (perform_all one_observer
              (emitProgress True ''socket-1'' 45 ''Processing file 2/2: d.pdf'')) ''socket-1''
       = [(''progress'', ''socket-1'', ProgressData 45 ''Processing file 2/2: d.pdf'')]"
    by (simp add: perform_all_def emitProgress_def io_to_emit_def one_observer_def
        on_join_job_def on_connection_def socket_join_def empty_channel_def Let_def)
  have request: "map fst (inbox (perform_all one_observer
                       (fst (postJob example_env True ''socket-1'' pdf_request))) ''socket-1'')
       = [''status'', ''status'', ''progress'', ''status'', ''progress'', ''progress'',
          ''progress'', ''completed'']"
    by code_simp
  from ne before one request show ?thesis by (simp add: one_observer_def)
qed


section \<open>Progress percentages of a batch\<close>

lemma fdiv_mono: "0 \<le> x \<Longrightarrow> x \<le> y \<Longrightarrow> 0 < d \<Longrightarrow> fdiv x d \<le> fdiv y d"
  unfolding fdiv_def by (rule to_double_mono) (simp_all add: divide_right_mono)

lemma fmul_mono: "0 \<le> x \<Longrightarrow> x \<le> y \<Longrightarrow> 0 \<le> c \<Longrightarrow> fmul x c \<le> fmul y c"
  unfolding fmul_def by (rule to_double_mono) (simp_all add: mult_right_mono)

lemma fdiv_nonneg: "0 \<le> x \<Longrightarrow> 0 < d \<Longrightarrow> 0 \<le> fdiv x d"
  unfolding fdiv_def by (rule to_double_nonneg) simp

lemma batchProgress_mono:
  assumes "i \<le> j" "j < n"
  shows "batchProgress i n \<le> batchProgress j n"
proof -
  from assms have n: "(0::rat) < of_nat n" by simp
  have "fdiv (of_nat i) (of_nat n) \<le> fdiv (of_nat j) (of_nat n)"
    using assms n by (intro fdiv_mono) simp_all
  moreover have "0 \<le> fdiv (of_nat i) (of_nat n)"
    using n by (intro fdiv_nonneg) simp_all
  ultimately have "fmul (fdiv (of_nat i) (of_nat n)) 90 \<le> fmul (fdiv (of_nat j) (of_nat n)) 90"
    by (intro fmul_mono) simp_all
  then show ?thesis
    unfolding batchProgress_def by (rule Math_round_mono)
qed

lemma batchProgress_bounds:
  assumes "i < n"
  shows "0 \<le> batchProgress i n" and "batchProgress i n \<le> 90"
proof -
  from assms have n: "(0::rat) < of_nat n" by simp
  have q0: "0 \<le> fdiv (of_nat i) (of_nat n)"
    using n by (intro fdiv_nonneg) simp_all
  have "fdiv (of_nat i) (of_nat n) \<le> to_double 1"
    unfolding fdiv_def using assms n by (intro to_double_mono) simp_all
  then have q1: "fdiv (of_nat i) (of_nat n) \<le> 1" by (simp add: to_double_1)
  have "0 \<le> fmul (fdiv (of_nat i) (of_nat n)) 90"
    unfolding fmul_def using q0 by (intro to_double_nonneg) simp
  then have "Math_round 0 \<le> batchProgress i n"
    unfolding batchProgress_def by (rule Math_round_mono)
  then show "0 \<le> batchProgress i n" by (simp add: Math_round_eq_round)
  have "fmul (fdiv (of_nat i) (of_nat n)) 90 \<le> to_double 90"
    unfolding fmul_def using q0 q1 by (intro to_double_mono) simp_all
  then have "batchProgress i n \<le> Math_round 90"
    unfolding batchProgress_def to_double_90 by (rule Math_round_mono)
  then show "batchProgress i n \<le> 90" by (simp add: Math_round_eq_round)
qed

lemma sorted_batchProgress: "sorted (map (\<lambda>i. batchProgress i n) [0..<n])"
  by (simp add: sorted_iff_nth_mono batchProgress_mono)

lemma closing_percents:
  "progressPercents (closingEffects env fs outputDir options True jobId) \<in>
     {[100], [95, 100], [95]}" if "jobId \<noteq> []"
  using that
  by (simp add: closingEffects_def guarded_def Let_def split: option.splits)


lemma closing_last:
  assumes "jobId \<noteq> []" "archiveFailure env fs outputDir options True jobId = None"
  shows "closingEffects env fs outputDir options True jobId \<noteq> []
       \<and> last (closingEffects env fs outputDir options True jobId)
           = Emit jobId ''progress'' jobId (ProgressData 100 ''Batch compression completed!'')
       \<and> last (progressPercents (closingEffects env fs outputDir options True jobId)) = 100"
  using assms by (simp add: closingEffects_def guarded_def Let_def)

text \<open>
  C2, as the code has it: with a server and a job id, the effects of \<open>compressBatch\<close>
  are the opening status event, then for each index \<open>i\<close> the progress event with
  percent \<open>round(i / N * 90)\<close>, in JavaScript numbers, followed by the events of that
  file's compressor, then the closing events. The factor is 90 whether or not archiving
  was requested. The orchestrator's own percentages, those of the per-file events
  followed by those of the closing events, are non-decreasing, at most 90 before the
  closing events, and when the archive step does not fail the last event of the run is the
  progress event of 100.
\<close>

theorem batch_progress_percentages:
  assumes "io" and "jobId \<noteq> []"
  shows "fst (compressBatch env fs outputDir options io jobId) =
      [Emit jobId ''status'' jobId
         (StatusData ''processing''
            (''Starting batch compression of '' @ show_nat (length fs) @ '' files...''))]
      @ concat (map (\<lambda>i. Emit jobId ''progress'' jobId
                            (ProgressData
                               (round (fmul (fdiv (of_nat i) (of_nat (length fs))) 90))
                               (''Processing file '' @ show_nat (i + 1) @ ''/''
                                  @ show_nat (length fs) @ '': '' @ filename (fs ! i)))
                          # fst (compressByType env (fs ! i) outputDir options io jobId))
                  [0..<length fs])
      @ closingEffects env fs outputDir options io jobId
    \<and> (\<forall>i<length fs. batchProgress i (length fs)
                         = round (fmul (fdiv (of_nat i) (of_nat (length fs))) 90)
                      \<and> batchProgress i (length fs) \<le> 90)
    \<and> sorted (map (\<lambda>i. batchProgress i (length fs)) [0..<length fs]
               @ progressPercents (closingEffects env fs outputDir options io jobId))
    \<and> (archiveFailure env fs outputDir options io jobId = None \<longrightarrow>
         last (fst (compressBatch env fs outputDir options io jobId))
           = Emit jobId ''progress'' jobId (ProgressData 100 ''Batch compression completed!'')
         \<and> last (map (\<lambda>i. batchProgress i (length fs)) [0..<length fs]
                   @ progressPercents (closingEffects env fs outputDir options io jobId))
             = 100)"
proof -
  from assms have io: "io = True" by simp
  let ?close = "closingEffects env fs outputDir options True jobId"
  have shape: "fst (compressBatch env fs outputDir options True jobId) =
      [Emit jobId ''status'' jobId
         (StatusData ''processing''
            (''Starting batch compression of '' @ show_nat (length fs) @ '' files...''))]
      @ concat (map (\<lambda>i. Emit jobId ''progress'' jobId
                            (ProgressData
                               (round (fmul (fdiv (of_nat i) (of_nat (length fs))) 90))
                               (''Processing file '' @ show_nat (i + 1) @ ''/''
                                  @ show_nat (length fs) @ '': '' @ filename (fs ! i)))
                          # fst (compressByType env (fs ! i) outputDir options True jobId))
                  [0..<length fs])
      @ ?close"
    using assms(2)
    by (simp add: compressBatch_effects iterationEffects_def fileProgressEvent_def
        batchProgress_def guarded_def Math_round_eq_round)
  have each: "\<forall>i<length fs. batchProgress i (length fs)
                         = round (fmul (fdiv (of_nat i) (of_nat (length fs))) 90)
                      \<and> batchProgress i (length fs) \<le> 90"
  proof (intro allI impI conjI)
    fix i
    assume i: "i < length fs"
    show "batchProgress i (length fs) = round (fmul (fdiv (of_nat i) (of_nat (length fs))) 90)"
      by (simp add: batchProgress_def Math_round_eq_round)
    from i show "batchProgress i (length fs) \<le> 90"
      by (rule batchProgress_bounds(2))
  qed
  have low: "\<forall>x \<in> set (map (\<lambda>i. batchProgress i (length fs)) [0..<length fs]). x \<le> 90"
    by (auto simp: batchProgress_bounds)
  from closing_percents [OF assms(2), of env fs outputDir options]
  have high: "sorted (progressPercents ?close) \<and> (\<forall>y \<in> set (progressPercents ?close). 95 \<le> y)"
    by auto
  have ord: "sorted (map (\<lambda>i. batchProgress i (length fs)) [0..<length fs]
               @ progressPercents ?close)"
    unfolding sorted_append using sorted_batchProgress [of "length fs"] low high by fastforce
  have fin: "archiveFailure env fs outputDir options True jobId = None \<longrightarrow>
         last (fst (compressBatch env fs outputDir options True jobId))
           = Emit jobId ''progress'' jobId (ProgressData 100 ''Batch compression completed!'')
         \<and> last (map (\<lambda>i. batchProgress i (length fs)) [0..<length fs]
                   @ progressPercents ?close) = 100"
  proof
    assume ok: "archiveFailure env fs outputDir options True jobId = None"
    note c = closing_last [OF assms(2) ok]
    from c have ne: "progressPercents ?close \<noteq> []"
      using closing_percents [OF assms(2), of env fs outputDir options] by auto
    from c have "last (fst (compressBatch env fs outputDir options True jobId))
           = Emit jobId ''progress'' jobId (ProgressData 100 ''Batch compression completed!'')"
      unfolding compressBatch_effects by (simp add: last_append)
    moreover from c ne have "last (map (\<lambda>i. batchProgress i (length fs)) [0..<length fs]
                   @ progressPercents ?close) = 100"
      by (simp add: last_append)
    ultimately show "last (fst (compressBatch env fs outputDir options True jobId))
           = Emit jobId ''progress'' jobId (ProgressData 100 ''Batch compression completed!'')
         \<and> last (map (\<lambda>i. batchProgress i (length fs)) [0..<length fs]
                   @ progressPercents ?close) = 100"
      by blast
  qed
  from shape each ord fin show ?thesis unfolding io by blast
qed

theorem batch_progress_percentages_witness:
  "True \<and> ''job-1'' \<noteq> []
   \<and> archiveFailure example_env [file_c, file_d] ''/app/temp'' plain_options True ''job-1''
       = None
   \<and> map (\<lambda>i. batchProgress i (length [file_c, file_d])) [0..<length [file_c, file_d]]
       @ progressPercents (closingEffects example_env [file_c, file_d] ''/app/temp''
                             plain_options True ''job-1'')
       = [0, 45, 100]
   \<and> sorted [0, 45, 100 :: int]
   \<and> last (fst (compressBatch example_env [file_c, file_d] ''/app/temp'' plain_options True
                  ''job-1''))
       = Emit ''job-1'' ''progress'' ''job-1''
           (ProgressData 100 ''Batch compression completed!'')"
proof -
  let ?fs = "[file_c, file_d]"
  have job: "''job-1'' \<noteq> []" by simp
  have ok: "archiveFailure example_env ?fs ''/app/temp'' plain_options True ''job-1'' = None"
    by (simp add: archiveFailure_def plain_options_def)
  have own: "map (\<lambda>i. batchProgress i (length ?fs)) [0..<length ?fs]
       @ progressPercents (closingEffects example_env ?fs ''/app/temp'' plain_options True
                             ''job-1'')
       = [0, 45, 100]"
    by code_simp
  note inst = batch_progress_percentages
    [OF TrueI job, of example_env ?fs "''/app/temp''" plain_options]
  from inst own have ord: "sorted [0, 45, 100 :: int]" by simp
  from inst ok have fin: "last (fst (compressBatch example_env ?fs ''/app/temp'' plain_options
                                       True ''job-1''))
       = Emit ''job-1'' ''progress'' ''job-1''
           (ProgressData 100 ''Batch compression completed!'')"
    by blast
  from job ok own ord fin show ?thesis by blast
qed

text \<open>
  The claim as stated fails on two PDF files without archiving: the event before the
  second file carries 45, where \<open>round(1 / 2 * 100)\<close> is 50, and the percentages
  emitted during the batch, those of the PDF compressor included, go down from 100 to 45.
\<close>

theorem batch_progress_counterexample:
  "\<not> opt_createArchive plain_options
   \<and> fst (compressBatch example_env [file_c, file_d] ''/app/temp'' plain_options True
           ''job-1'') ! 5
       = Emit ''job-1'' ''progress'' ''job-1'' (ProgressData 45 ''Processing file 2/2: d.pdf'')
   \<and> Math_round (fmul (fdiv 1 2) 100) = 50
   \<and> progressPercents (fst (compressBatch example_env [file_c, file_d] ''/app/temp''
                              plain_options True ''job-1''))
       = [0, 50, 100, 45, 50, 100, 100]
   \<and> \<not> sorted [0, 50, 100, 45, 50, 100, 100 :: int]"
  by code_simp

end
